theory Spec2Isabelle
  imports Main "HOL-Library.Sublist"
begin

section \<open>JavaScript values used by the storefront scripts\<close>

text \<open>
  Strings are the UTF-8 bytes of the text.  A JavaScript number that the scripts use as
  an integer is a double with an integral value, \<open>Num\<close>; beside it stand the
  not-a-number value, which \<^verbatim>\<open>parseInt\<close> yields on text without digits, and the two
  infinities (\<open>Infinity True\<close> the negative one).
\<close>

datatype number = NaN | Num int | Infinity bool

text \<open>The number of binary digits of a natural number.\<close>

fun bits :: "nat \<Rightarrow> nat" where
  "bits n = (if n = 0 then 0 else Suc (bits (n div 2)))"

declare bits.simps [simp del]

text \<open>
  The double nearest to an integer, ties to the even significand: an integer of at most
  53 binary digits is a double; a longer one loses its low digits, and from
  \<open>2^1024\<close> on the result is an infinity.
\<close>

definition to_number :: "int \<Rightarrow> number" where
  "to_number n =
     (let m = nat \<bar>n\<bar>;
          e = bits m - 53
      in if e = 0 then Num n
         else
           let q = m div 2 ^ e;
               r = m mod 2 ^ e;
               half = 2 ^ (e - 1);
               rounded = (if half < r \<or> (r = half \<and> odd q) then q + 1 else q) * 2 ^ e
           in if 2 ^ 1024 \<le> rounded then Infinity (n < 0)
              else Num (if n < 0 then - int rounded else int rounded))"

text \<open>
  \<^verbatim>\<open>a + b\<close> and \<^verbatim>\<open>Math.max(0, a)\<close>: the sum of two doubles is the double nearest to
  the exact sum, NaN is contagious, and the negative infinity is below zero.
\<close>

fun plus_number :: "number \<Rightarrow> number \<Rightarrow> number" where
  "plus_number (Num a) (Num b) = to_number (a + b)"
| "plus_number (Infinity s) (Num b) = Infinity s"
| "plus_number (Num a) (Infinity s) = Infinity s"
| "plus_number (Infinity s) (Infinity t) = (if s = t then Infinity s else NaN)"
| "plus_number NaN _ = NaN"
| "plus_number _ NaN = NaN"

fun Math_max0 :: "number \<Rightarrow> number" where
  "Math_max0 (Num a) = Num (max 0 a)"
| "Math_max0 (Infinity negative) = (if negative then Num 0 else Infinity False)"
| "Math_max0 NaN = NaN"

text \<open>\<^verbatim>\<open>xs[i]\<close>: \<^verbatim>\<open>undefined\<close> (here \<open>None\<close>) outside the array.\<close>

definition at :: "'a list \<Rightarrow> nat \<Rightarrow> 'a option" where
  "at xs i = (if i < length xs then Some (xs ! i) else None)"

text \<open>\<^verbatim>\<open>xs.every((x, index) => p(x, index))\<close>.\<close>

definition every_indexed :: "('a \<Rightarrow> nat \<Rightarrow> bool) \<Rightarrow> 'a list \<Rightarrow> bool" where
  "every_indexed p xs = list_all (\<lambda>(index, x). p x index) (enumerate 0 xs)"

text \<open>Truthiness of a string: the empty string is falsy.\<close>

definition truthy :: "string \<Rightarrow> bool" where
  "truthy s = (s \<noteq> [])"

subsection \<open>parseInt\<close>

text \<open>
  The length in bytes of a white space or line terminator character of ECMAScript at
  the front of a string, 0 when there is none: TAB, LF, VT, FF, CR, SP, U+00A0, U+1680,
  U+2000 to U+200A, U+2028, U+2029, U+202F, U+205F, U+3000 and U+FEFF.
\<close>

definition white_space_length :: "string \<Rightarrow> nat" where
  "white_space_length s =
     (let bs = (map of_char (take 3 s) :: nat list) in
      if take 1 bs \<in> {[9], [10], [11], [12], [13], [32]} then 1
      else if take 2 bs = [0xC2, 0xA0] then 2
      else if bs = [0xE1, 0x9A, 0x80] then 3
      else if length bs = 3 \<and> take 2 bs = [0xE2, 0x80]
              \<and> ((0x80 \<le> bs ! 2 \<and> bs ! 2 \<le> 0x8A) \<or> bs ! 2 \<in> {0xA8, 0xA9, 0xAF}) then 3
      else if bs = [0xE2, 0x81, 0x9F] then 3
      else if bs = [0xE3, 0x80, 0x80] then 3
      else if bs = [0xEF, 0xBB, 0xBF] then 3
      else 0)"

text \<open>The string without its leading white space.\<close>

fun trimStart :: "string \<Rightarrow> string" where
  "trimStart [] = []"
| "trimStart (c # cs) =
     (if white_space_length (c # cs) = 0 then c # cs
      else trimStart (drop (white_space_length (c # cs) - 1) cs))"

text \<open>The value of a character as a digit, 36 for a character that is no digit of any radix.\<close>

definition digit_value :: "char \<Rightarrow> nat" where
  "digit_value c =
     (let n = (of_char c :: nat) in
      if 48 \<le> n \<and> n \<le> 57 then n - 48
      else if 97 \<le> n \<and> n \<le> 122 then n - 87
      else if 65 \<le> n \<and> n \<le> 90 then n - 55
      else 36)"

text \<open>
  \<^verbatim>\<open>parseInt(string, radix)\<close> of ECMAScript: leading white space is dropped, one sign is
  read, a radix of 0 (the argument left out) means 10, a \<^verbatim>\<open>0x\<close> prefix switches to 16
  when the radix is 0 or 16, the longest prefix of digits of the radix is read and
  everything after it is ignored; no digit at all gives NaN.  The result is the double
  nearest to the integer read, as the engines compute it.
\<close>

definition parseInt :: "string \<Rightarrow> nat \<Rightarrow> number" where
  "parseInt str radix =
     (let S = trimStart str;
          neg = (S \<noteq> [] \<and> hd S = CHR ''-'');
          S1 = (if S \<noteq> [] \<and> (hd S = CHR ''+'' \<or> hd S = CHR ''-'') then tl S else S)
      in if radix \<noteq> 0 \<and> (radix < 2 \<or> 36 < radix) then NaN
         else
           let hex = ((radix = 0 \<or> radix = 16) \<and> (take 2 S1 = ''0x'' \<or> take 2 S1 = ''0X''));
               R = (if hex then 16 else if radix = 0 then 10 else radix);
               S2 = (if hex then drop 2 S1 else S1);
               Z = takeWhile (\<lambda>c. digit_value c < R) S2
           in if Z = [] then NaN
              else to_number ((if neg then - 1 else 1) * int (foldl (\<lambda>a c. a * R + digit_value c) 0 Z)))"

subsection \<open>Number to string\<close>

text \<open>The decimal text of an integer, as a template literal prints it (below \<open>10^21\<close>).\<close>

fun digits :: "nat \<Rightarrow> string" where
  "digits n = (if n < 10 then [''0123456789'' ! n] else digits (n div 10) @ [''0123456789'' ! (n mod 10)])"

declare digits.simps [simp del]

definition Number_toString :: "int \<Rightarrow> string" where
  "Number_toString i = (if i < 0 then CHR ''-'' # digits (nat (- i)) else digits (nat i))"


section \<open>Product form: variants\<close>

text \<open>
  A variant of the product JSON, with the fields the product form reads; its id is an
  integer that \<^verbatim>\<open>JSON.parse\<close> delivers exactly.
  \<open>inventory_management\<close> is a string or null; \<open>featured_image\<close> carries \<open>src\<close> and
  an optional \<open>alt\<close>.
\<close>

record variant =
  id_variant :: int
  options :: "string list"
  price :: int
  compare_at_price :: "int option"
  available :: bool
  inventory_management :: "string option"
  inventory_quantity :: int
  featured_image :: "(string \<times> string option) option"

text \<open>
  \<^verbatim>\<open>getSelectedOptions\<close>: for every option of the product, in order, the value of the
  checked input with that option index is pushed, when there is one.  \<open>checked index\<close>
  is what \<^verbatim>\<open>querySelector('[data-option-input][data-option-index="index"]:checked')\<close>
  finds: the value of the checked input, or \<open>None\<close>.
\<close>

definition getSelectedOptions :: "string list \<Rightarrow> (nat \<Rightarrow> string option) \<Rightarrow> string list" where
  "getSelectedOptions product_options checked =
     foldl (\<lambda>options_acc index.
              case checked index of
                Some input_value \<Rightarrow> options_acc @ [input_value]
              | None \<Rightarrow> options_acc)
           [] [0..<length product_options]"

text \<open>\<^verbatim>\<open>getVariantFromOptions\<close>: the first variant whose options agree with the array, position by position.\<close>

definition getVariantFromOptions :: "variant list \<Rightarrow> string list \<Rightarrow> variant option" where
  "getVariantFromOptions variants opts =
     find (\<lambda>v. every_indexed (\<lambda>option index. at (options v) index = Some option) opts) variants"

text \<open>The variant that \<^verbatim>\<open>onOptionChange\<close> stores in \<^verbatim>\<open>currentVariant\<close>.\<close>

definition onOptionChange_variant :: "string list \<Rightarrow> variant list \<Rightarrow> (nat \<Rightarrow> string option) \<Rightarrow> variant option" where
  "onOptionChange_variant product_options variants checked =
     getVariantFromOptions variants (getSelectedOptions product_options checked)"

text \<open>
  The matching rule of the specification, for a product with \<open>n\<close> options: at every option
  index that has a selected value the variant carries that value; an index without a
  selected value does not constrain the variant.
\<close>

definition selection_matches :: "nat \<Rightarrow> (nat \<Rightarrow> string option) \<Rightarrow> variant \<Rightarrow> bool" where
  "selection_matches n selection v =
     list_all (\<lambda>index. case selection index of
                          None \<Rightarrow> True
                        | Some selected \<Rightarrow> at (options v) index = Some selected)
              [0..<n]"

text \<open>
  \<^verbatim>\<open>getInitialVariant\<close>.  \<open>variantId\<close> is \<^verbatim>\<open>urlParams.get('variant')\<close>: \<open>None\<close> when the
  URL has no such parameter.  The result is \<open>None\<close> (\<^verbatim>\<open>undefined\<close>) only for an empty
  variant list.
\<close>

definition getInitialVariant :: "string option \<Rightarrow> variant list \<Rightarrow> variant option" where
  "getInitialVariant variantId variants =
     (let from_url =
            (case variantId of
               None \<Rightarrow> None
             | Some s \<Rightarrow>
                 if truthy s then find (\<lambda>v. Num (id_variant v) = parseInt s 0) variants
                 else None)
      in case from_url of
           Some v \<Rightarrow> Some v
         | None \<Rightarrow>
             (case find available variants of
                Some v \<Rightarrow> Some v
              | None \<Rightarrow> at variants 0))"

text \<open>A URL names a variant when its \<^verbatim>\<open>variant\<close> parameter is non-empty and parses to the variant's id.\<close>

definition url_names :: "string option \<Rightarrow> variant \<Rightarrow> bool" where
  "url_names variantId v =
     (case variantId of None \<Rightarrow> False | Some s \<Rightarrow> truthy s \<and> parseInt s 0 = Num (id_variant v))"

text \<open>\<open>v\<close> is the first element of \<open>xs\<close>, in list order, that satisfies \<open>P\<close>.\<close>

definition first_in_order :: "('a \<Rightarrow> bool) \<Rightarrow> 'a list \<Rightarrow> 'a \<Rightarrow> bool" where
  "first_in_order P xs v = (\<exists>i < length xs. xs ! i = v \<and> P v \<and> (\<forall>j < i. \<not> P (xs ! j)))"

text \<open>
  \<^verbatim>\<open>updateStockStatus\<close>.  \<open>stockStatus\<close> is the \<^verbatim>\<open>innerHTML\<close> of the stock status
  element, \<open>None\<close> when the page has no such element; the result is the new one.
\<close>

definition html_out_of_stock :: string where
  \<open>html_out_of_stock = ''<span class="text-red-600">Out of Stock</span>''\<close>

definition html_only_left :: "int \<Rightarrow> string" where
  \<open>html_only_left n = ''<span class="text-amber-600">Only '' @ Number_toString n @ '' left</span>''\<close>

definition html_in_stock :: string where
  \<open>html_in_stock = ''<span class="text-green-600">In Stock</span>''\<close>

definition tracked :: "variant \<Rightarrow> bool" where
  "tracked v = (case inventory_management v of None \<Rightarrow> False | Some s \<Rightarrow> truthy s)"

definition updateStockStatus :: "variant \<Rightarrow> string option \<Rightarrow> string option" where
  "updateStockStatus currentVariant stockStatus =
     (case stockStatus of
        None \<Rightarrow> None
      | Some _ \<Rightarrow>
          if \<not> available currentVariant then Some html_out_of_stock
          else if tracked currentVariant
                  \<and> inventory_quantity currentVariant \<le> 5
                  \<and> inventory_quantity currentVariant > 0
          then Some (html_only_left (inventory_quantity currentVariant))
          else Some html_in_stock)"


text \<open>The low-stock tier of the specification: tracked, and between 1 and 5 pieces left.\<close>

definition low_stock :: "variant \<Rightarrow> bool" where
  "low_stock v = (tracked v \<and> 0 < inventory_quantity v \<and> inventory_quantity v \<le> 5)"


section \<open>Client-side storage: wishlist, recently viewed, cookie consent\<close>

text \<open>
  JSON values, as \<^verbatim>\<open>JSON.parse\<close> returns them; an object lists its properties, each name
  once.
\<close>

datatype json = JNull | JBool bool | JNum int | JStr string | JArr "json list" | JObj "(string \<times> json) list"

text \<open>
  One key of \<^verbatim>\<open>localStorage\<close>, described by what the scripts can observe of it:
  \<open>NoItem\<close> when \<^verbatim>\<open>getItem\<close> returns null, \<open>EmptyText\<close> for the empty string (falsy),
  \<open>InvalidText\<close> for a non-empty text on which \<^verbatim>\<open>JSON.parse\<close> throws, and
  \<open>JsonText v\<close> for a text that \<^verbatim>\<open>JSON.parse\<close> reads as \<open>v\<close>; \<^verbatim>\<open>JSON.stringify\<close> of an
  array of strings writes such a text.
\<close>

datatype storage_item = NoItem | EmptyText | InvalidText | JsonText json

datatype exn = SyntaxError | TypeError

text \<open>The expression \<^verbatim>\<open>data ? JSON.parse(data) : fallback\<close> inside the \<^verbatim>\<open>try\<close> blocks.\<close>

definition parse_or :: "json \<Rightarrow> storage_item \<Rightarrow> exn + json" where
  "parse_or fallback data =
     (case data of
        NoItem \<Rightarrow> Inr fallback
      | EmptyText \<Rightarrow> Inr fallback
      | InvalidText \<Rightarrow> Inl SyntaxError
      | JsonText v \<Rightarrow> Inr v)"

text \<open>\<^verbatim>\<open>Wishlist.getAll\<close>: the \<^verbatim>\<open>catch\<close> block turns every exception into the empty array.\<close>

definition Wishlist_getAll :: "storage_item \<Rightarrow> exn + json" where
  "Wishlist_getAll data =
     (case parse_or (JArr []) data of
        Inr v \<Rightarrow> Inr v
      | Inl e \<Rightarrow> Inr (JArr []))"

definition RecentlyViewed_getAll :: "storage_item \<Rightarrow> exn + json" where
  "RecentlyViewed_getAll data =
     (case parse_or (JArr []) data of
        Inr v \<Rightarrow> Inr v
      | Inl e \<Rightarrow> Inr (JArr []))"

definition no_consent :: json where
  "no_consent = JObj [(''analytics'', JBool False), (''marketing'', JBool False), (''preferences'', JBool False)]"

text \<open>\<^verbatim>\<open>CookieConsent.getConsent\<close>, on the item stored under the key with suffix \<^verbatim>\<open>_details\<close>.\<close>

definition getConsent :: "storage_item \<Rightarrow> exn + json" where
  "getConsent details =
     (case parse_or no_consent details of
        Inr v \<Rightarrow> Inr v
      | Inl e \<Rightarrow> Inr no_consent)"

text \<open>
  \<^verbatim>\<open>items.includes(handle)\<close> on a parsed value: membership for an array, substring
  for a string, and a TypeError for every other value, which has no such method.
\<close>

definition includes_handle :: "json \<Rightarrow> string \<Rightarrow> exn + bool" where
  "includes_handle items handle =
     (case items of
        JArr xs \<Rightarrow> Inr (JStr handle \<in> set xs)
      | JStr s \<Rightarrow> Inr (sublist handle s)
      | _ \<Rightarrow> Inl TypeError)"

datatype storage_event =
    CountersUpdated nat
  | Dispatched string string
  | ConsoleError string

definition MAX_ITEMS_wishlist :: nat where
  "MAX_ITEMS_wishlist = 50"

definition MAX_ITEMS_recent :: nat where
  "MAX_ITEMS_recent = 12"

text \<open>
  \<^verbatim>\<open>Wishlist._save\<close>.  \<open>setItem_ok\<close> tells whether \<^verbatim>\<open>localStorage.setItem\<close> accepts the
  write; when it throws (quota), the error is logged and the item stays as it was.
\<close>

definition Wishlist_save :: "bool \<Rightarrow> json list \<Rightarrow> storage_item \<Rightarrow> storage_item \<times> storage_event list" where
  "Wishlist_save setItem_ok items data =
     (if setItem_ok then (JsonText (JArr items), [CountersUpdated (length items)])
      else (data, [ConsoleError ''Wishlist: Failed to save to localStorage'']))"

text \<open>
  \<^verbatim>\<open>Wishlist.add\<close>: the returned boolean, the item afterwards and what was shown or
  dispatched.  A parsed value that is no array ends in a TypeError at \<^verbatim>\<open>includes\<close>,
  \<^verbatim>\<open>shift\<close> or \<^verbatim>\<open>push\<close>.
\<close>

definition Wishlist_add :: "bool \<Rightarrow> string \<Rightarrow> storage_item \<Rightarrow> exn + (bool \<times> storage_item \<times> storage_event list)" where
  "Wishlist_add setItem_ok handle data =
     (if \<not> truthy handle then Inr (False, data, [])
      else
        case Wishlist_getAll data of
          Inl e \<Rightarrow> Inl e
        | Inr items \<Rightarrow>
            (case includes_handle items handle of
               Inl e \<Rightarrow> Inl e
             | Inr True \<Rightarrow> Inr (False, data, [])
             | Inr False \<Rightarrow>
                 (case items of
                    JArr xs \<Rightarrow>
                      let shifted = (if length xs \<ge> MAX_ITEMS_wishlist then tl xs else xs);
                          pushed = shifted @ [JStr handle];
                          (data', shown) = Wishlist_save setItem_ok pushed data
                      in Inr (True, data', shown @ [Dispatched ''wishlist:add'' handle])
                  | _ \<Rightarrow> Inl TypeError)))"

text \<open>A value that may be \<^verbatim>\<open>undefined\<close>.\<close>

datatype js_value = Undefined | Value json

text \<open>The \<^verbatim>\<open>length\<close> of a string: its number of UTF-16 code units.\<close>

definition utf16_length :: "string \<Rightarrow> nat" where
  "utf16_length s =
     sum_list (map (\<lambda>c. let b = (of_char c :: nat) in
                          if b < 0x80 then 1 else if b < 0xC0 then 0 else if b < 0xF0 then 1 else 2) s)"

text \<open>
  \<^verbatim>\<open>Wishlist.count\<close>, the \<^verbatim>\<open>length\<close> of what \<^verbatim>\<open>getAll\<close> returns: the number of entries of
  an array, the length of a string, a TypeError for null, the own \<^verbatim>\<open>length\<close> property
  of an object, and \<^verbatim>\<open>undefined\<close> for a number or a boolean.
\<close>

definition Wishlist_count :: "storage_item \<Rightarrow> exn + js_value" where
  "Wishlist_count data =
     (case Wishlist_getAll data of
        Inl e \<Rightarrow> Inl e
      | Inr (JArr xs) \<Rightarrow> Inr (Value (JNum (int (length xs))))
      | Inr (JStr s) \<Rightarrow> Inr (Value (JNum (int (utf16_length s))))
      | Inr JNull \<Rightarrow> Inl TypeError
      | Inr (JObj properties) \<Rightarrow>
          (case map_of properties ''length'' of
             None \<Rightarrow> Inr Undefined
           | Some v \<Rightarrow> Inr (Value v))
      | Inr _ \<Rightarrow> Inr Undefined)"

definition RecentlyViewed_save :: "bool \<Rightarrow> json list \<Rightarrow> storage_item \<Rightarrow> storage_item \<times> storage_event list" where
  "RecentlyViewed_save setItem_ok items data =
     (if setItem_ok then (JsonText (JArr items), [])
      else (data, [ConsoleError ''RecentlyViewed: Failed to save to localStorage'']))"

text \<open>\<^verbatim>\<open>RecentlyViewed.add\<close>; only an array has \<^verbatim>\<open>filter\<close>.\<close>

definition RecentlyViewed_add :: "bool \<Rightarrow> string \<Rightarrow> storage_item \<Rightarrow> exn + (storage_item \<times> storage_event list)" where
  "RecentlyViewed_add setItem_ok handle data =
     (if \<not> truthy handle then Inr (data, [])
      else
        case RecentlyViewed_getAll data of
          Inl e \<Rightarrow> Inl e
        | Inr (JArr xs) \<Rightarrow>
            let filtered = filter (\<lambda>h. h \<noteq> JStr handle) xs;
                unshifted = JStr handle # filtered;
                sliced = (if length unshifted > MAX_ITEMS_recent then take MAX_ITEMS_recent unshifted
                          else unshifted)
            in Inr (RecentlyViewed_save setItem_ok sliced data)
        | Inr _ \<Rightarrow> Inl TypeError)"

text \<open>\<^verbatim>\<open>RecentlyViewed.clear\<close>.\<close>

definition RecentlyViewed_clear :: "bool \<Rightarrow> storage_item \<Rightarrow> storage_item \<times> storage_event list" where
  "RecentlyViewed_clear setItem_ok data = RecentlyViewed_save setItem_ok [] data"

text \<open>
  The items that the module itself can have stored: it starts from a key that was never
  written and changes it only through \<^verbatim>\<open>add\<close> and \<^verbatim>\<open>clear\<close>.
\<close>

inductive recently_viewed_stored :: "storage_item \<Rightarrow> bool" where
  never_written: "recently_viewed_stored NoItem"
| after_add: "recently_viewed_stored data \<Longrightarrow> RecentlyViewed_add setItem_ok handle data = Inr (data', shown)
              \<Longrightarrow> recently_viewed_stored data'"
| after_clear: "recently_viewed_stored data \<Longrightarrow> RecentlyViewed_clear setItem_ok data = (data', shown)
              \<Longrightarrow> recently_viewed_stored data'"

text \<open>The handles of a stored list, in order.\<close>

definition stored_handles :: "storage_item \<Rightarrow> json list" where
  "stored_handles data = (case RecentlyViewed_getAll data of Inr (JArr xs) \<Rightarrow> xs | _ \<Rightarrow> [])"


section \<open>Cart drawer and add to cart: asynchronous handlers\<close>

subsection \<open>The page, requests and responses\<close>

text \<open>
  The rows of the rendered cart: for every \<^verbatim>\<open>[data-cart-item]\<close> row its line key and the
  \<^verbatim>\<open>textContent\<close> of its \<^verbatim>\<open>[data-cart-item-quantity]\<close> element, when it has one.
\<close>

type_synonym cart_rows = "(string \<times> string option) list"

text \<open>
  What the handlers read and write on the page.  \<open>submit_disabled\<close> and \<open>submit_text\<close>
  belong to the submit button of the form handed to \<^verbatim>\<open>CartDrawer.addItem\<close>;
  \<open>addToCartButton\<close> is the \<^verbatim>\<open>disabled\<close> flag of the product form's button and
  \<open>addToCartText\<close> the text of its label, each \<open>None\<close> when the element is missing;
  \<open>ajaxCart\<close> is the truthiness of \<^verbatim>\<open>window.theme?.ajaxCart\<close>.  The drawer element itself
  exists: \<^verbatim>\<open>init\<close> binds nothing without it; \<^verbatim>\<open>window.routes\<close> is defined, as the layout
  of the theme sets it.
\<close>

record page =
  isOpen :: bool
  rows :: cart_rows
  has_contents :: bool
  submit_disabled :: bool
  submit_text :: string
  addToCartButton :: "bool option"
  addToCartText :: "string option"
  currentVariant :: "variant option"
  ajaxCart :: bool

type_synonym form_data = "(string \<times> string) list"

text \<open>A form with its fields and the text of its submit button, when it has one.\<close>

record cart_form =
  formData :: form_data
  submitBtn :: "string option"

datatype request =
    CartAdd form_data
  | FormAdd form_data
  | CartChange string number
  | CartSection
  | CartJs

text \<open>
  A response of the remote cart: its \<^verbatim>\<open>ok\<close> flag, what \<^verbatim>\<open>response.json()\<close> resolves to
  (\<open>None\<close> when it rejects), an object with an optional \<^verbatim>\<open>description\<close> and an optional
  \<^verbatim>\<open>item_count\<close>, and what \<^verbatim>\<open>response.text()\<close> holds once parsed as HTML (\<open>None\<close> when
  it rejects): the rows of \<^verbatim>\<open>#shopify-section-cart-drawer-contents\<close>, when the document
  has that element.
\<close>

record cart_json =
  description :: "string option"
  item_count :: "int option"

record response =
  ok :: bool
  body_json :: "cart_json option"
  body_section :: "cart_rows option option"

datatype fetched = Rejected | Fulfilled response

text \<open>
  What a \<^verbatim>\<open>catch\<close> block of \<^verbatim>\<open>addItem\<close> can hold: an \<^verbatim>\<open>Error\<close> with its message, the
  rejection of \<^verbatim>\<open>fetch\<close>, or the rejection of \<^verbatim>\<open>response.json()\<close>.
\<close>

datatype thrown = Error string | NetworkError | BodyError

text \<open>
  What a handler does to the page or shows to the user.  \<open>DrawerShown\<close> stands for the
  classes of drawer and overlay and the overflow of the body, \<open>Loading\<close> for the class
  \<^verbatim>\<open>is-loading\<close>, \<open>ShowCount\<close> for the count badges, \<open>LogError\<close> for \<^verbatim>\<open>console.error\<close>,
  \<open>Alert e\<close> for \<^verbatim>\<open>alert(e.message || 'Failed to add item to cart')\<close>, \<open>AddToCartState\<close> for
  \<^verbatim>\<open>updateAddToCartState(enabled, text)\<close> of the product form.
\<close>

datatype effect =
    SetIsOpen bool
  | DrawerShown bool
  | FocusFirst
  | SubmitDisabled bool
  | SubmitText string
  | Loading bool
  | ReplaceContents cart_rows
  | ShowCount "int option"
  | LogError string
  | Alert thrown
  | Dispatch string
  | PreventDefault
  | AddToCartState bool string
  | UncaughtTypeError
  | UncaughtSyntaxError

fun apply_effect :: "effect \<Rightarrow> page \<Rightarrow> page" where
  "apply_effect (SetIsOpen b) w = w\<lparr>isOpen := b\<rparr>"
| "apply_effect (SubmitDisabled b) w = w\<lparr>submit_disabled := b\<rparr>"
| "apply_effect (SubmitText t) w = w\<lparr>submit_text := t\<rparr>"
| "apply_effect (ReplaceContents rs) w = w\<lparr>rows := rs\<rparr>"
| "apply_effect (AddToCartState enabled t) w =
     w\<lparr>addToCartButton := map_option (\<lambda>_. \<not> enabled) (addToCartButton w),
       addToCartText := map_option (\<lambda>_. t) (addToCartText w)\<rparr>"
| "apply_effect _ w = w"

subsection \<open>Asynchronous functions as trees\<close>

text \<open>
  An \<^verbatim>\<open>async\<close> function is a tree: \<open>Do\<close> performs an effect, \<open>Read\<close> looks at the page,
  \<open>Await\<close> issues a request and suspends until it settles, \<open>Spawn c p\<close> calls the async
  function \<open>c\<close> without awaiting it and goes on with \<open>p\<close>, \<open>Timeout ms c p\<close> is
  \<^verbatim>\<open>setTimeout(c, ms)\<close> followed by \<open>p\<close>.  Every function below takes what follows its
  call as its last argument; \<^verbatim>\<open>try\<close>, \<^verbatim>\<open>catch\<close> and \<^verbatim>\<open>finally\<close> are spelled out on each
  branch.  Reading a body belongs to the step that settles the request.
\<close>

datatype prog =
    Stop
  | Do effect prog
  | Read "page \<Rightarrow> prog"
  | Await request "fetched \<Rightarrow> prog"
  | Spawn prog prog
  | Timeout nat prog prog

datatype pending = AwaitingFetch request "fetched \<Rightarrow> prog" | Timer nat prog

datatype event = Eff effect | Req request

text \<open>Run to completion: everything a call does until each of its strands is suspended.\<close>

primrec sync :: "prog \<Rightarrow> page \<Rightarrow> event list \<times> page \<times> pending list" where
  "sync Stop w = ([], w, [])"
| "sync (Do e p) w = (case sync p (apply_effect e w) of (es, w', ps) \<Rightarrow> (Eff e # es, w', ps))"
| "sync (Read f) w = sync (f w) w"
| "sync (Await r k) w = ([Req r], w, [AwaitingFetch r k])"
| "sync (Spawn c p) w =
     (case sync c w of (es1, w1, ps1) \<Rightarrow>
        case sync p w1 of (es2, w2, ps2) \<Rightarrow> (es1 @ es2, w2, ps1 @ ps2))"
| "sync (Timeout ms c p) w = (case sync p w of (es, w', ps) \<Rightarrow> (es, w', Timer ms c # ps))"

text \<open>
  The awaited strand of a call, to its end: the \<open>n\<close>-th request it awaits settles as
  \<open>outcome n\<close>.  What it spawned or scheduled runs up to its first suspension and is
  returned as pending.
\<close>

primrec exec :: "prog \<Rightarrow> (nat \<Rightarrow> fetched) \<Rightarrow> nat \<Rightarrow> page \<Rightarrow> event list \<times> page \<times> pending list" where
  "exec Stop outcome n w = ([], w, [])"
| "exec (Do e p) outcome n w =
     (case exec p outcome n (apply_effect e w) of (es, w', ps) \<Rightarrow> (Eff e # es, w', ps))"
| "exec (Read f) outcome n w = exec (f w) outcome n w"
| "exec (Await r k) outcome n w =
     (case exec (k (outcome n)) outcome (Suc n) w of (es, w', ps) \<Rightarrow> (Req r # es, w', ps))"
| "exec (Spawn c p) outcome n w =
     (case sync c w of (es1, w1, ps1) \<Rightarrow>
        case exec p outcome n w1 of (es2, w2, ps2) \<Rightarrow> (es1 @ es2, w2, ps1 @ ps2))"
| "exec (Timeout ms c p) outcome n w =
     (case exec p outcome n w of (es, w', ps) \<Rightarrow> (es, w', Timer ms c # ps))"

text \<open>
  The event loop: handler calls, settled requests and fired timers, one at a time, each
  run to completion.  \<open>Settle i r\<close> settles the \<open>i\<close>-th pending request with \<open>r\<close>.
\<close>

record config =
  the_page :: page
  trace :: "event list"
  waiting :: "pending list"

datatype stimulus = Call prog | Settle nat fetched | Fire nat

definition resume :: "config \<Rightarrow> nat \<Rightarrow> prog \<Rightarrow> config" where
  "resume c i p =
     (case sync p (the_page c) of
        (es, w, ps) \<Rightarrow>
          \<lparr>the_page = w, trace = trace c @ es,
           waiting = take i (waiting c) @ drop (Suc i) (waiting c) @ ps\<rparr>)"

fun step :: "config \<Rightarrow> stimulus \<Rightarrow> config" where
  "step c (Call p) =
     (case sync p (the_page c) of
        (es, w, ps) \<Rightarrow> \<lparr>the_page = w, trace = trace c @ es, waiting = waiting c @ ps\<rparr>)"
| "step c (Settle i r) =
     (case at (waiting c) i of
        Some (AwaitingFetch q k) \<Rightarrow> resume c i (k r)
      | _ \<Rightarrow> c)"
| "step c (Fire i) =
     (case at (waiting c) i of
        Some (Timer ms p) \<Rightarrow> resume c i p
      | _ \<Rightarrow> c)"

definition run :: "config \<Rightarrow> stimulus list \<Rightarrow> config" where
  "run c stimuli = foldl step c stimuli"

text \<open>The requests of a trace, and the quantity changes among them.\<close>

definition requests :: "event list \<Rightarrow> request list" where
  "requests es = concat (map (\<lambda>e. case e of Req r \<Rightarrow> [r] | Eff _ \<Rightarrow> []) es)"

definition change_requests :: "request list \<Rightarrow> (string \<times> number) list" where
  "change_requests rs = concat (map (\<lambda>r. case r of CartChange key q \<Rightarrow> [(key, q)] | _ \<Rightarrow> []) rs)"

definition awaited :: "pending list \<Rightarrow> request list" where
  "awaited ps = concat (map (\<lambda>p. case p of AwaitingFetch r k \<Rightarrow> [r] | Timer ms c \<Rightarrow> []) ps)"

subsection \<open>CartDrawer\<close>

text \<open>\<^verbatim>\<open>updateCount\<close>: the response is read without a look at its \<^verbatim>\<open>ok\<close> flag.\<close>

definition updateCount :: "prog \<Rightarrow> prog" where
  "updateCount k =
     Await CartJs (\<lambda>r.
       case r of
         Rejected \<Rightarrow> Do (LogError ''CartDrawer: Count update failed'') k
       | Fulfilled response \<Rightarrow>
           (case body_json response of
              None \<Rightarrow> Do (LogError ''CartDrawer: Count update failed'') k
            | Some cart \<Rightarrow> Do (ShowCount (item_count cart)) k))"

text \<open>\<^verbatim>\<open>refresh\<close>; \<^verbatim>\<open>this.updateCount()\<close> is called and not awaited.\<close>

definition refresh :: "prog \<Rightarrow> prog" where
  "refresh k =
     Await CartSection (\<lambda>r.
       case r of
         Rejected \<Rightarrow> Do (LogError ''CartDrawer: Refresh failed'') k
       | Fulfilled response \<Rightarrow>
           if \<not> ok response then Do (LogError ''CartDrawer: Refresh failed'') k
           else
             (case body_section response of
                None \<Rightarrow> Do (LogError ''CartDrawer: Refresh failed'') k
              | Some newContent \<Rightarrow>
                  Read (\<lambda>w.
                    case newContent of
                      Some new_rows \<Rightarrow>
                        if has_contents w then Do (ReplaceContents new_rows) (Spawn (updateCount Stop) k)
                        else Spawn (updateCount Stop) k
                    | None \<Rightarrow> Spawn (updateCount Stop) k)))"

text \<open>\<^verbatim>\<open>open\<close>, \<^verbatim>\<open>close\<close> and \<^verbatim>\<open>toggle\<close>.\<close>

definition open_drawer :: "prog \<Rightarrow> prog" where
  "open_drawer k =
     Read (\<lambda>w.
       if isOpen w then k
       else Do (SetIsOpen True) (refresh (Do (DrawerShown True) (Do FocusFirst k))))"

definition close_drawer :: "prog \<Rightarrow> prog" where
  "close_drawer k =
     Read (\<lambda>w.
       if \<not> isOpen w then k
       else Do (SetIsOpen False) (Do (DrawerShown False) k))"

definition toggle :: "prog \<Rightarrow> prog" where
  "toggle k = Read (\<lambda>w. if isOpen w then close_drawer k else Spawn (open_drawer Stop) k)"

text \<open>
  \<^verbatim>\<open>addItem\<close>.  The \<^verbatim>\<open>finally\<close> block ends every branch, also the ones that leave through
  the \<^verbatim>\<open>catch\<close> block; \<^verbatim>\<open>this.open()\<close> is called and not awaited.
\<close>

definition addItem :: "cart_form \<Rightarrow> prog \<Rightarrow> prog" where
  "addItem form k =
     (let finally_block =
            (case submitBtn form of
               None \<Rightarrow> k
             | Some originalText \<Rightarrow> Do (SubmitDisabled False) (Do (SubmitText originalText) k));
          catch_block = (\<lambda>e. Do (LogError ''CartDrawer: Add failed'') (Do (Alert e) finally_block));
          try_block =
            Await (CartAdd (formData form)) (\<lambda>r.
              case r of
                Rejected \<Rightarrow> catch_block NetworkError
              | Fulfilled response \<Rightarrow>
                  if \<not> ok response then
                    (case body_json response of
                       None \<Rightarrow> catch_block BodyError
                     | Some error \<Rightarrow>
                         catch_block (Error (case description error of
                                               Some d \<Rightarrow> if truthy d then d else ''Failed to add item''
                                             | None \<Rightarrow> ''Failed to add item'')))
                  else
                    refresh (Spawn (open_drawer Stop)
                      (case body_json response of
                         None \<Rightarrow> catch_block BodyError
                       | Some detail \<Rightarrow> Do (Dispatch ''cart:add'') finally_block)))
      in case submitBtn form of
           None \<Rightarrow> try_block
         | Some originalText \<Rightarrow> Do (SubmitDisabled True) (Do (SubmitText ''Adding...'') try_block))"

text \<open>\<^verbatim>\<open>updateItem\<close> and \<^verbatim>\<open>removeItem\<close>.\<close>

definition updateItem :: "string \<Rightarrow> number \<Rightarrow> prog \<Rightarrow> prog" where
  "updateItem key quantity k =
     Do (Loading True)
       (Await (CartChange key quantity) (\<lambda>r.
          case r of
            Rejected \<Rightarrow> Do (LogError ''CartDrawer: Update failed'') (Do (Loading False) k)
          | Fulfilled response \<Rightarrow>
              if \<not> ok response then Do (LogError ''CartDrawer: Update failed'') (Do (Loading False) k)
              else refresh (Do (Loading False) k)))"

definition removeItem :: "string \<Rightarrow> prog \<Rightarrow> prog" where
  "removeItem key k = updateItem key (Num 0) k"

text \<open>
  A line key for which \<^verbatim>\<open>[data-cart-item="key"]\<close> is the attribute selector for that
  key: it holds no double quote, no backslash, no line break and no null character.
\<close>

definition plain_key :: "string \<Rightarrow> bool" where
  "plain_key key = list_all (\<lambda>c. (of_char c :: nat) \<notin> {0, 10, 12, 13, 0x22, 0x5C}) key"

text \<open>\<^verbatim>\<open>quantityEl?.textContent || '1'\<close> for the first row with the key.\<close>

definition displayed_text :: "cart_rows \<Rightarrow> string \<Rightarrow> string" where
  "displayed_text rs key =
     (case map_of rs key of
        None \<Rightarrow> ''1''
      | Some None \<Rightarrow> ''1''
      | Some (Some t) \<Rightarrow> if truthy t then t else ''1'')"

text \<open>
  \<^verbatim>\<open>changeQuantity\<close>.  With a key that is not plain the selector is another one or
  none at all; the call then ends in the SyntaxError that \<^verbatim>\<open>querySelector\<close> throws on a
  malformed selector, before any request.
\<close>

definition changeQuantity :: "string \<Rightarrow> int \<Rightarrow> prog \<Rightarrow> prog" where
  "changeQuantity key change k =
     Read (\<lambda>w.
       if \<not> plain_key key then Do UncaughtSyntaxError Stop
       else
         let currentQty = parseInt (displayed_text (rows w) key) 10;
             newQty = Math_max0 (plus_number currentQty (Num change))
         in if newQty = Num 0 then removeItem key k
            else updateItem key newQty k)"

subsection \<open>ProductForm.onFormSubmit\<close>

definition updateAvailability :: "prog \<Rightarrow> prog" where
  "updateAvailability k =
     Read (\<lambda>w.
       case currentVariant w of
         None \<Rightarrow> Do UncaughtTypeError Stop
       | Some v \<Rightarrow>
           if available v then Do (AddToCartState True ''Add to Cart'') k
           else Do (AddToCartState False ''Sold Out'') k)"

definition onFormSubmit :: "form_data \<Rightarrow> prog \<Rightarrow> prog" where
  "onFormSubmit data k =
     Read (\<lambda>w.
       if \<not> ajaxCart w then k
       else
         Do PreventDefault
           (Do (AddToCartState False ''Adding...'')
              (let catch_block =
                     Do (LogError ''Add to cart error:'')
                       (Do (AddToCartState True ''Error - Try Again'')
                          (Timeout 2000 (updateAvailability Stop) k))
               in Await (FormAdd data) (\<lambda>r.
                    case r of
                      Rejected \<Rightarrow> catch_block
                    | Fulfilled response \<Rightarrow>
                        if \<not> ok response then catch_block
                        else
                          (case body_json response of
                             None \<Rightarrow> catch_block
                           | Some result \<Rightarrow>
                               Do (Dispatch ''cart:updated'')
                                 (Do (AddToCartState True ''Added!'')
                                    (Timeout 1500 (Do (AddToCartState True ''Add to Cart'') Stop)
                                       (Do (Dispatch ''cart:open'') k))))))))"


section \<open>Concrete pages, products and stores\<close>

text \<open>A product with the options Size and Color and a single variant, small and red.\<close>

definition small_red :: variant where
  "small_red = \<lparr>id_variant = 101, options = [''S'', ''Red''], price = 2500, compare_at_price = None,
      available = True, inventory_management = Some ''shopify'', inventory_quantity = 3,
      featured_image = None\<rparr>"

text \<open>Only the input of option index 1 (Color) is checked.\<close>

definition only_color_checked :: "nat \<Rightarrow> string option" where
  "only_color_checked index = (if index = 1 then Some ''Red'' else None)"

text \<open>Two variants: the first available, the second sold out.\<close>

definition variant_41 :: variant where
  "variant_41 = \<lparr>id_variant = 41, options = [''S''], price = 2500, compare_at_price = None,
      available = True, inventory_management = None, inventory_quantity = 20,
      featured_image = None\<rparr>"

definition variant_42 :: variant where
  "variant_42 = \<lparr>id_variant = 42, options = [''M''], price = 2500, compare_at_price = None,
      available = False, inventory_management = None, inventory_quantity = 0,
      featured_image = None\<rparr>"

text \<open>A page whose cart shows one line with quantity 2.\<close>

definition page0 :: page where
  "page0 = \<lparr>isOpen = True, rows = [(''line-1'', Some ''2'')], has_contents = True, submit_disabled = False,
     submit_text = ''Add to Cart'', addToCartButton = Some False, addToCartText = Some ''Add to Cart'',
     currentVariant = Some variant_41, ajaxCart = True\<rparr>"

definition idle :: config where
  "idle = \<lparr>the_page = page0, trace = [], waiting = []\<rparr>"

definition all_rejected :: "nat \<Rightarrow> fetched" where
  "all_rejected n = Rejected"

definition changed_ok :: fetched where
  "changed_ok = Fulfilled \<lparr>ok = True, body_json = Some \<lparr>description = None, item_count = Some 3\<rparr>,
     body_section = None\<rparr>"

definition section_3 :: fetched where
  "section_3 = Fulfilled \<lparr>ok = True, body_json = None, body_section = Some (Some [(''line-1'', Some ''3'')])\<rparr>"

definition all_ok :: "nat \<Rightarrow> fetched" where
  "all_ok n = (if n = 0 then changed_ok else section_3)"

text \<open>
  Plus is pressed twice on the same line before anything settles; then the two updates,
  the two refreshes and the two counts settle, in that order.
\<close>

definition two_quick_plus :: "stimulus list" where
  "two_quick_plus =
     [Call (changeQuantity ''line-1'' 1 Stop), Call (changeQuantity ''line-1'' 1 Stop),
      Settle 0 changed_ok, Settle 0 changed_ok, Settle 0 section_3, Settle 0 section_3,
      Settle 0 changed_ok, Settle 0 changed_ok]"

definition add_form :: cart_form where
  "add_form = \<lparr>formData = [(''id'', ''41''), (''quantity'', ''1'')], submitBtn = Some ''Add to Cart''\<rparr>"

text \<open>A request settles with success when it is fulfilled by a response whose \<^verbatim>\<open>ok\<close> flag is set.\<close>

definition succeeded :: "fetched \<Rightarrow> bool" where
  "succeeded r = (case r of Rejected \<Rightarrow> False | Fulfilled response \<Rightarrow> ok response)"

text \<open>Fifty distinct handles, \<^verbatim>\<open>oldest\<close> first.\<close>

definition fifty_handles :: "json list" where
  "fifty_handles = JStr ''oldest'' # map (\<lambda>n. JStr (CHR ''p'' # replicate n (CHR ''x''))) [0..<49]"

definition three_viewed :: storage_item where
  "three_viewed = JsonText (JArr [JStr ''c'', JStr ''b'', JStr ''a''])"

text \<open>A recently-viewed list as the module keeps it: no handle twice, at most twelve, none empty.\<close>

definition recent_list :: "json list \<Rightarrow> bool" where
  "recent_list xs = (distinct xs \<and> length xs \<le> 12 \<and> JStr [] \<notin> set xs)"

definition recent_ok :: "storage_item \<Rightarrow> bool" where
  "recent_ok data = (data = NoItem \<or> (\<exists>xs. data = JsonText (JArr xs) \<and> recent_list xs))"

definition moved_to_front :: "string \<Rightarrow> json list \<Rightarrow> json list" where
  "moved_to_front handle xs = take 12 (JStr handle # filter (\<lambda>h. h \<noteq> JStr handle) xs)"

section \<open>Numbers and parseInt\<close>

lemma bits_le: "bits n \<le> k \<longleftrightarrow> n < 2 ^ k"
proof (induction n arbitrary: k rule: bits.induct)
  case (1 n)
  show ?case
  proof (cases "n = 0")
    case True
    then show ?thesis by (simp add: bits.simps)
  next
    case False
    show ?thesis
    proof (cases k)
      case 0
      then show ?thesis using False by (simp add: bits.simps [of n])
    next
      case (Suc j)
      have "bits n \<le> Suc j \<longleftrightarrow> bits (n div 2) \<le> j"
        using False by (simp add: bits.simps [of n])
      also have "\<dots> \<longleftrightarrow> n div 2 < 2 ^ j"
        using 1 [OF False] by simp
      also have "\<dots> \<longleftrightarrow> n < 2 ^ Suc j"
        by auto
      finally show ?thesis using Suc by simp
    qed
  qed
qed

text \<open>A safe integer, of magnitude below \<open>2^53\<close>, is a double.\<close>

lemma to_number_safe: "\<bar>n\<bar> < 2 ^ 53 \<Longrightarrow> to_number n = Num n"
proof -
  assume "\<bar>n\<bar> < 2 ^ 53"
  then have "nat \<bar>n\<bar> < 2 ^ 53"
    by (simp add: nat_less_iff)
  then have "bits (nat \<bar>n\<bar>) \<le> 53"
    by (simp add: bits_le)
  then show ?thesis
    by (simp add: to_number_def Let_def)
qed

lemma bits_numeral:
  "bits (numeral (Num.Bit0 k)) = Suc (bits (numeral k))"
  "bits (numeral (Num.Bit1 k)) = Suc (bits (numeral k))"
  "bits (Suc 0) = 1" "bits 0 = 0"
  by (simp_all add: bits.simps [of "numeral (Num.Bit0 k)"] bits.simps [of "numeral (Num.Bit1 k)"]
      bits.simps [of "Suc 0"] bits.simps [of 0])

text \<open>Beyond \<open>2^53\<close> an odd integer is rounded, a tie to the even significand.\<close>

lemma to_number_rounds:
  "to_number 9007199254740993 = Num 9007199254740992"
  "to_number 9007199254740995 = Num 9007199254740996"
  "to_number (- 9007199254740994) = Num (- 9007199254740994)"
  by (simp_all add: to_number_def bits_numeral Let_def)

lemma digit_char_value: "k < 10 \<Longrightarrow> digit_value (''0123456789'' ! k) = k"
  by (auto simp: digit_value_def less_Suc_eq eval_nat_numeral)

lemma digit_char_code: "k < 10 \<Longrightarrow> (of_char (''0123456789'' ! k) :: nat) = 48 + k"
  by (auto simp: less_Suc_eq eval_nat_numeral)

lemma digits_Nil: "digits n \<noteq> []"
  by (subst digits.simps) simp

lemma digits_chars: "c \<in> set (digits n) \<Longrightarrow> \<exists>k < 10. c = ''0123456789'' ! k"
proof (induction n rule: digits.induct)
  case (1 n)
  show ?case
  proof (cases "n < 10")
    case True
    with 1(2) show ?thesis by (subst (asm) digits.simps) auto
  next
    case False
    from 1(2) have "c \<in> set (digits (n div 10)) \<or> c = ''0123456789'' ! (n mod 10)"
      using False by (subst (asm) digits.simps) auto
    then show ?thesis
    proof
      assume "c \<in> set (digits (n div 10))"
      then show ?thesis using 1(1) [OF False] by blast
    next
      assume "c = ''0123456789'' ! (n mod 10)"
      moreover have "n mod 10 < 10" by simp
      ultimately show ?thesis by blast
    qed
  qed
qed

lemma digits_foldl: "foldl (\<lambda>a c. a * 10 + digit_value c) 0 (digits n) = n"
proof (induction n rule: digits.induct)
  case (1 n)
  show ?case
  proof (cases "n < 10")
    case True
    then show ?thesis by (subst digits.simps) (simp add: digit_char_value)
  next
    case False
    then show ?thesis
      using 1 [OF False] by (subst digits.simps) (simp add: digit_char_value)
  qed
qed

lemma digit_first:
  assumes "(of_char c :: nat) = 48 + k" "k < 10"
  shows "white_space_length (c # cs) = 0" "c \<noteq> CHR ''-''" "c \<noteq> CHR ''+''"
  using assms by (auto simp: white_space_length_def Let_def)

text \<open>\<^verbatim>\<open>parseInt\<close> reads the decimal text of a natural number as that number.\<close>

lemma parseInt_digits: "parseInt (digits n) 10 = to_number (int n)"
proof -
  obtain c cs where d: "digits n = c # cs"
    using digits_Nil [of n] by (cases "digits n") auto
  then have "c \<in> set (digits n)" by simp
  then obtain k where k: "k < 10" "c = ''0123456789'' ! k"
    using digits_chars by blast
  then have code: "(of_char c :: nat) = 48 + k"
    by (simp add: digit_char_code)
  have trim: "trimStart (digits n) = digits n"
    using digit_first(1) [OF code k(1)] by (simp add: d)
  have all: "takeWhile (\<lambda>c. digit_value c < 10) (digits n) = digits n"
    by (rule takeWhile_eq_all_conv [THEN iffD2]) (auto dest!: digits_chars simp: digit_char_value)
  have "hd (digits n) \<noteq> CHR ''-''" "hd (digits n) \<noteq> CHR ''+''"
    using digit_first(2,3) [OF code k(1)] by (simp_all add: d)
  then show ?thesis
    by (simp add: parseInt_def trim all digits_foldl digits_Nil Let_def)
qed

text \<open>White space before the digits and text after them are skipped, also a no-break space.\<close>

lemma parseInt_skips:
  "parseInt [CHR 0x20, CHR 0xC2, CHR 0xA0, CHR 0x0A, CHR ''7'', CHR ''x''] 10 = Num 7"
  "parseInt ''0x1A'' 0 = Num 26" "parseInt ''0x1A'' 10 = Num 0" "parseInt ''-12px'' 10 = Num (- 12)"
  "parseInt ''abc'' 10 = NaN" "parseInt [] 10 = NaN"
  by (simp_all add: parseInt_def white_space_length_def digit_value_def to_number_safe)

lemma parseInt_42: "parseInt ''42'' 0 = Num 42"
  by (simp add: parseInt_def white_space_length_def digit_value_def to_number_safe)

lemma parseInt_2: "parseInt ''2'' 10 = Num 2"
  by (simp add: parseInt_def white_space_length_def digit_value_def to_number_safe)

section \<open>Variant resolution\<close>

subsection \<open>Selected options and matching\<close>

lemma foldl_push:
  "foldl (\<lambda>acc index. case checked index of Some v \<Rightarrow> acc @ [v] | None \<Rightarrow> acc) acc0 indices
   = acc0 @ List.map_filter checked indices"
  by (induction indices arbitrary: acc0) (auto simp: List.map_filter_simps split: option.splits)

lemma getSelectedOptions_map_filter:
  "getSelectedOptions product_options checked = List.map_filter checked [0..<length product_options]"
  by (simp add: getSelectedOptions_def foldl_push)

lemma every_indexed_nth: "every_indexed p xs \<longleftrightarrow> (\<forall>i < length xs. p (xs ! i) i)"
  by (auto simp: every_indexed_def list_all_iff in_set_enumerate_eq)

lemma map_filter_prefix:
  assumes "k \<le> n" and "\<forall>i < k. checked i \<noteq> None" and "\<forall>i. k \<le> i \<and> i < n \<longrightarrow> checked i = None"
  shows "List.map_filter checked [0..<n] = map (\<lambda>i. the (checked i)) [0..<k]"
proof -
  have split: "[0..<n] = [0..<k] @ [k..<n]"
    using assms(1) by (metis le_add_diff_inverse upt_add_eq_append zero_le)
  have a: "List.map_filter checked [0..<k] = map (\<lambda>i. the (checked i)) [0..<k]"
    using assms(2) by (auto simp: List.map_filter_def intro!: filter_True)
  have b: "List.map_filter checked [k..<n] = []"
    using assms(3) by (auto simp: List.map_filter_def filter_empty_conv)
  have app: "List.map_filter checked (xs @ ys) = List.map_filter checked xs @ List.map_filter checked ys" for xs ys
    by (simp add: List.map_filter_def)
  show ?thesis
    by (simp only: split app a b append_Nil2)
qed

lemma selection_matches_nth:
  "selection_matches n selection v \<longleftrightarrow>
     (\<forall>i < n. \<forall>x. selection i = Some x \<longrightarrow> at (options v) i = Some x)"
  by (auto simp: selection_matches_def list_all_iff split: option.splits)

text \<open>
  When the checked inputs are those of the option indices below \<open>k\<close>, the form finds the
  first variant, in list order, that matches the selection.
\<close>

lemma resolve_prefix_selection:
  assumes "k \<le> length product_options"
    and "\<forall>i < k. checked i \<noteq> None"
    and "\<forall>i. k \<le> i \<and> i < length product_options \<longrightarrow> checked i = None"
  shows "onOptionChange_variant product_options variants checked
         = find (selection_matches (length product_options) checked) variants"
proof -
  have sel: "getSelectedOptions product_options checked = map (\<lambda>i. the (checked i)) [0..<k]"
    using assms by (simp add: getSelectedOptions_map_filter map_filter_prefix)
  have "every_indexed (\<lambda>option index. at (options v) index = Some option) (map (\<lambda>i. the (checked i)) [0..<k])
        \<longleftrightarrow> selection_matches (length product_options) checked v" for v
  proof -
    have "(\<forall>i<k. at (options v) i = Some (the (checked i)))
          \<longleftrightarrow> (\<forall>i < length product_options. \<forall>x. checked i = Some x \<longrightarrow> at (options v) i = Some x)"
      (is "?L \<longleftrightarrow> ?R")
    proof
      assume l: ?L
      show ?R
      proof (intro allI impI)
        fix i x assume i: "i < length product_options" and c: "checked i = Some x"
        have "i < k" using assms(3) i c by (metis not_le option.distinct(1))
        with l c show "at (options v) i = Some x" by fastforce
      qed
    next
      assume r: ?R
      show ?L
      proof (intro allI impI)
        fix i assume i: "i < k"
        then obtain x where "checked i = Some x" using assms(2) by auto
        with r i assms(1) show "at (options v) i = Some (the (checked i))" by force
      qed
    qed
    then show ?thesis by (simp add: every_indexed_nth selection_matches_nth)
  qed
  then show ?thesis
    by (simp add: onOptionChange_variant_def getVariantFromOptions_def sel)
qed

lemma selection_matches_full:
  assumes "\<forall>i < n. selection i = Some (tuple ! i)" and "length tuple = n" and "length (options v) = n"
  shows "selection_matches n selection v \<longleftrightarrow> options v = tuple"
  using assms by (auto simp: selection_matches_nth at_def intro: nth_equalityI)

text \<open>
  A selection with a value for every option index finds the first variant with exactly
  that option tuple, and nothing when no variant has it.
\<close>

lemma resolve_full_selection:
  assumes "length tuple = length product_options"
    and "\<forall>i < length product_options. checked i = Some (tuple ! i)"
    and "\<forall>v \<in> set variants. length (options v) = length product_options"
  shows "onOptionChange_variant product_options variants checked
         = find (\<lambda>v. options v = tuple) variants"
proof -
  have "onOptionChange_variant product_options variants checked
         = find (selection_matches (length product_options) checked) variants"
    using assms(2) by (intro resolve_prefix_selection[where k = "length product_options"]) auto
  also have "\<dots> = find (\<lambda>v. options v = tuple) variants"
    using assms by (intro find_cong) (auto simp: selection_matches_full)
  finally show ?thesis .
qed

text \<open>
  Claim C1.  The form is to find a variant exactly when the variant carries, at every
  option index with a selected value, that value, indices without a value being wild
  cards.  With Size unselected and Color set to Red, the variant (S, Red) matches that
  rule, yet the form finds no variant: the selected values are pushed without their
  index, so Red is compared with the size.
\<close>

theorem onOptionChange_variant_gap_selection:
  "selection_matches 2 only_color_checked small_red
   \<and> getSelectedOptions [''Size'', ''Color''] only_color_checked = [''Red'']
   \<and> onOptionChange_variant [''Size'', ''Color''] [small_red] only_color_checked = None"
  by (simp add: selection_matches_def onOptionChange_variant_def getVariantFromOptions_def
      getSelectedOptions_def only_color_checked_def small_red_def every_indexed_def at_def
      list_all_iff upt_rec [of 0 2] upt_rec [of "Suc 0" 2])

subsection \<open>The initial variant\<close>

lemma find_first_in_order: "find P xs = Some v \<longleftrightarrow> first_in_order P xs v"
  by (auto simp: find_Some_iff first_in_order_def)

lemma url_names_find:
  "find (url_names variantId) variants =
     (case variantId of None \<Rightarrow> None
      | Some s \<Rightarrow> if truthy s then find (\<lambda>v. Num (id_variant v) = parseInt s 0) variants else None)"
proof (cases variantId)
  case None
  then show ?thesis by (simp add: url_names_def find_None_iff)
next
  case (Some s)
  show ?thesis
  proof (cases "truthy s")
    case True
    then have "url_names variantId = (\<lambda>v. Num (id_variant v) = parseInt s 0)"
      using Some by (auto simp: url_names_def fun_eq_iff)
    then show ?thesis using Some True by simp
  next
    case False
    then show ?thesis using Some by (simp add: url_names_def find_None_iff)
  qed
qed

lemma getInitialVariant_alt:
  "getInitialVariant variantId variants =
     (case find (url_names variantId) variants of Some v \<Rightarrow> Some v
      | None \<Rightarrow> (case find available variants of Some v \<Rightarrow> Some v | None \<Rightarrow> at variants 0))"
  by (simp add: getInitialVariant_def url_names_find)

lemma getInitialVariant_first:
  assumes "variants \<noteq> []"
  shows "\<exists>v. getInitialVariant variantId variants = Some v \<and>
           (if \<exists>u \<in> set variants. url_names variantId u then first_in_order (url_names variantId) variants v
            else if \<exists>u \<in> set variants. available u then first_in_order available variants v
            else v = variants ! 0)"
proof (cases "find (url_names variantId) variants")
  case (Some v)
  then have "\<exists>u \<in> set variants. url_names variantId u"
    by (auto simp: find_Some_iff)
  moreover have "first_in_order (url_names variantId) variants v"
    using Some by (simp add: find_first_in_order)
  ultimately show ?thesis using Some
    by (simp add: getInitialVariant_alt)
next
  case None
  then have no_url: "\<not> (\<exists>u \<in> set variants. url_names variantId u)"
    by (simp add: find_None_iff)
  show ?thesis
  proof (cases "find available variants")
    case (Some v)
    then have "\<exists>u \<in> set variants. available u"
      by (auto simp: find_Some_iff)
    moreover have "first_in_order available variants v"
      using Some by (simp add: find_first_in_order)
    ultimately show ?thesis using Some None no_url
      by (simp add: getInitialVariant_alt)
  next
    case None': None
    then have "\<not> (\<exists>u \<in> set variants. available u)"
      by (simp add: find_None_iff)
    then show ?thesis using None None' no_url assms
      by (simp add: getInitialVariant_alt at_def)
  qed
qed

lemma getInitialVariant_named:
  assumes "V2 \<in> set variants" and "url_names variantId V2"
    and "\<forall>u \<in> set variants. id_variant u = id_variant V2 \<longrightarrow> u = V2"
  shows "getInitialVariant variantId variants = Some V2"
proof -
  have "variants \<noteq> []" using assms(1) by auto
  then obtain v where v: "getInitialVariant variantId variants = Some v"
    and c: "if \<exists>u \<in> set variants. url_names variantId u then first_in_order (url_names variantId) variants v
            else if \<exists>u \<in> set variants. available u then first_in_order available variants v
            else v = variants ! 0"
    using getInitialVariant_first [of variants variantId] by blast
  have "\<exists>u \<in> set variants. url_names variantId u"
    using assms(1,2) by blast
  with c have first: "first_in_order (url_names variantId) variants v"
    by simp
  from first have "v \<in> set variants" and "url_names variantId v"
    by (auto simp: first_in_order_def)
  then have "id_variant v = id_variant V2"
    using assms(2) by (auto simp: url_names_def split: option.splits)
  with \<open>v \<in> set variants\<close> assms(3) have "v = V2" by blast
  with v show ?thesis by simp
qed

text \<open>
  Claim C2.  For a non-empty variant list the initial variant is the first variant that
  the URL names, when it names one of the list; otherwise the first available variant,
  when there is one; otherwise the first variant of the list.  In particular a variant
  of the list that the URL names, and that shares its id with no other, is selected,
  available or not.
\<close>

theorem getInitialVariant_precedence:
  assumes "variants \<noteq> []"
  shows "(\<exists>v. getInitialVariant variantId variants = Some v \<and>
           (if \<exists>u \<in> set variants. url_names variantId u then first_in_order (url_names variantId) variants v
            else if \<exists>u \<in> set variants. available u then first_in_order available variants v
            else v = variants ! 0))
       \<and> (\<forall>V2 \<in> set variants.
             url_names variantId V2 \<and> (\<forall>u \<in> set variants. id_variant u = id_variant V2 \<longrightarrow> u = V2)
             \<longrightarrow> getInitialVariant variantId variants = Some V2)"
  using getInitialVariant_first [OF assms, of variantId] getInitialVariant_named [of _ variants variantId]
  by blast

text \<open>
  The URL \<^verbatim>\<open>?variant=42\<close> names the sold-out second variant; it is selected although the
  first variant is available.
\<close>

theorem getInitialVariant_precedence_witness:
  "[variant_41, variant_42] \<noteq> [] \<and> available variant_41 \<and> \<not> available variant_42
   \<and> url_names (Some ''42'') variant_42
   \<and> getInitialVariant (Some ''42'') [variant_41, variant_42] = Some variant_42"
proof -
  have nonempty: "[variant_41, variant_42] \<noteq> []" by simp
  have named: "url_names (Some ''42'') variant_42"
    by (simp add: url_names_def parseInt_42 variant_42_def truthy_def)
  have own_id: "\<forall>u \<in> set [variant_41, variant_42]. id_variant u = id_variant variant_42 \<longrightarrow> u = variant_42"
    by (simp add: variant_41_def variant_42_def)
  have "getInitialVariant (Some ''42'') [variant_41, variant_42] = Some variant_42"
    using getInitialVariant_precedence [OF nonempty, of "Some ''42''"] named own_id by simp
  with nonempty named show ?thesis
    by (simp add: variant_41_def variant_42_def)
qed

subsection \<open>The stock label\<close>

lemma html_distinct:
  "html_out_of_stock \<noteq> html_in_stock"
  "html_only_left n \<noteq> html_out_of_stock"
  "html_only_left n \<noteq> html_in_stock"
  by (simp_all add: html_out_of_stock_def html_in_stock_def html_only_left_def)

text \<open>
  Claim C3.  The stock label of a variant is one of three texts, and which one is decided
  by three conditions that exclude each other: Out of Stock exactly for an unavailable
  variant, Only N left (N the quantity) exactly for an available, tracked variant with
  between 1 and 5 pieces, In Stock exactly for every other available variant.
\<close>

theorem updateStockStatus_tiers:
  "updateStockStatus v (Some old) =
     Some (if \<not> available v then html_out_of_stock
           else if low_stock v then html_only_left (inventory_quantity v)
           else html_in_stock)
   \<and> (updateStockStatus v (Some old) = Some html_out_of_stock \<longleftrightarrow> \<not> available v)
   \<and> ((\<exists>n. updateStockStatus v (Some old) = Some (html_only_left n)) \<longleftrightarrow> available v \<and> low_stock v)
   \<and> (updateStockStatus v (Some old) = Some html_in_stock \<longleftrightarrow> available v \<and> \<not> low_stock v)"
  using html_distinct html_distinct(1)[symmetric] html_distinct(2,3)[symmetric]
  by (auto simp: updateStockStatus_def low_stock_def)

text \<open>Tracked with 3 pieces, sold out, and 20 pieces.\<close>

theorem updateStockStatus_tiers_witness:
  \<open>updateStockStatus small_red (Some []) = Some ''<span class="text-amber-600">Only 3 left</span>''
   \<and> updateStockStatus (small_red\<lparr>available := False, inventory_quantity := 0\<rparr>) (Some [])
       = Some ''<span class="text-red-600">Out of Stock</span>''
   \<and> updateStockStatus (small_red\<lparr>inventory_quantity := 20\<rparr>) (Some [])
       = Some ''<span class="text-green-600">In Stock</span>''\<close>
  using updateStockStatus_tiers [of small_red "[]"]
    updateStockStatus_tiers [of "small_red\<lparr>available := False, inventory_quantity := 0\<rparr>" "[]"]
    updateStockStatus_tiers [of "small_red\<lparr>inventory_quantity := 20\<rparr>" "[]"]
  by (simp add: small_red_def low_stock_def tracked_def truthy_def html_only_left_def html_in_stock_def
      html_out_of_stock_def Number_toString_def digits.simps)

section \<open>Client-side storage\<close>

subsection \<open>Read accessors\<close>

text \<open>
  Claim C10.  Whatever the stored item is, none of the three read accessors ends in an
  exception; for a key that is missing, empty or not parsable as JSON, the two lists
  are empty and the consent is the record with all three categories false.  The only
  exception of the guarded expression, on text that is not JSON, is caught.
\<close>

theorem read_accessors_never_throw:
  "(\<exists>v. Wishlist_getAll data = Inr v) \<and> (\<exists>v. RecentlyViewed_getAll data = Inr v)
   \<and> (\<exists>v. getConsent data = Inr v)
   \<and> (data \<in> {NoItem, EmptyText, InvalidText} \<longrightarrow>
        Wishlist_getAll data = Inr (JArr []) \<and> RecentlyViewed_getAll data = Inr (JArr [])
        \<and> getConsent data = Inr no_consent)
   \<and> (parse_or fallback data = Inl SyntaxError \<longleftrightarrow> data = InvalidText)"
  by (cases data) (simp_all add: Wishlist_getAll_def RecentlyViewed_getAll_def getConsent_def parse_or_def)

theorem read_accessors_never_throw_witness:
  "InvalidText \<in> {NoItem, EmptyText, InvalidText} \<and> parse_or no_consent InvalidText = Inl SyntaxError
   \<and> Wishlist_getAll InvalidText = Inr (JArr []) \<and> RecentlyViewed_getAll NoItem = Inr (JArr [])
   \<and> getConsent InvalidText
       = Inr (JObj [(''analytics'', JBool False), (''marketing'', JBool False), (''preferences'', JBool False)])"
  using read_accessors_never_throw [of InvalidText no_consent] read_accessors_never_throw [of NoItem no_consent]
  by (simp add: no_consent_def)

subsection \<open>Wishlist\<close>

lemma Wishlist_add_array:
  "Wishlist_add setItem_ok handle (JsonText (JArr xs)) =
     (if \<not> truthy handle \<or> JStr handle \<in> set xs then Inr (False, JsonText (JArr xs), [])
      else if setItem_ok
        then Inr (True, JsonText (JArr ((if 50 \<le> length xs then tl xs else xs) @ [JStr handle])),
                  [CountersUpdated (length ((if 50 \<le> length xs then tl xs else xs) @ [JStr handle])),
                   Dispatched ''wishlist:add'' handle])
        else Inr (True, JsonText (JArr xs),
                  [ConsoleError ''Wishlist: Failed to save to localStorage'', Dispatched ''wishlist:add'' handle]))"
  by (simp add: Wishlist_add_def Wishlist_getAll_def parse_or_def includes_handle_def
      MAX_ITEMS_wishlist_def Wishlist_save_def Let_def)

lemma Wishlist_count_array: "Wishlist_count (JsonText (JArr xs)) = Inr (Value (JNum (int (length xs))))"
  by (simp add: Wishlist_count_def Wishlist_getAll_def parse_or_def)

lemma fifty_length: "length fifty_handles = 50"
  by (simp add: fifty_handles_def)

lemma fifty_facts:
  "JStr ''new'' \<notin> set fifty_handles" "JStr ''oldest'' \<in> set fifty_handles"
  "hd fifty_handles = JStr ''oldest''" "JStr ''oldest'' \<notin> set (tl fifty_handles)"
  "JStr [] \<notin> set fifty_handles"
  by (auto simp add: fifty_handles_def simp del: upt_rec_numeral)

text \<open>
  Claim C8, as stated, at the empty handle: it is not in the list of fifty, yet nothing
  is evicted and nothing appended; \<^verbatim>\<open>add\<close> returns false and the list stays as it was.
\<close>

theorem Wishlist_add_empty_handle:
  "JStr [] \<notin> set fifty_handles \<and> length fifty_handles = 50
   \<and> Wishlist_add True [] (JsonText (JArr fifty_handles)) = Inr (False, JsonText (JArr fifty_handles), [])"
  using fifty_facts(5) fifty_length by (simp add: Wishlist_add_def truthy_def)

text \<open>
  Claim C8, amended.  For a stored list and a handle: a handle that is present, and also
  the empty handle, makes \<^verbatim>\<open>add\<close> return false and leaves the list as it was; a
  non-empty handle that is absent from a list of 50 entries takes the place of the first
  entry, at the end of the list, so that 50 entries remain; from a list of at most 50
  entries the count never exceeds 50.
\<close>

theorem Wishlist_add_cap:
  "(JStr handle \<in> set xs \<longrightarrow>
      Wishlist_add setItem_ok handle (JsonText (JArr xs)) = Inr (False, JsonText (JArr xs), []))
   \<and> (\<not> truthy handle \<longrightarrow>
      Wishlist_add setItem_ok handle (JsonText (JArr xs)) = Inr (False, JsonText (JArr xs), []))
   \<and> (truthy handle \<and> JStr handle \<notin> set xs \<and> length xs = 50 \<longrightarrow>
      Wishlist_add True handle (JsonText (JArr xs))
        = Inr (True, JsonText (JArr (tl xs @ [JStr handle])),
               [CountersUpdated 50, Dispatched ''wishlist:add'' handle])
      \<and> length (tl xs @ [JStr handle]) = 50)
   \<and> (length xs \<le> 50 \<longrightarrow>
      (\<exists>result data' shown. Wishlist_add setItem_ok handle (JsonText (JArr xs)) = Inr (result, data', shown)
         \<and> (\<exists>count. Wishlist_count data' = Inr (Value (JNum (int count))) \<and> count \<le> 50)))"
proof (intro conjI impI)
  assume "length xs \<le> 50"
  then show "\<exists>result data' shown. Wishlist_add setItem_ok handle (JsonText (JArr xs)) = Inr (result, data', shown)
         \<and> (\<exists>count. Wishlist_count data' = Inr (Value (JNum (int count))) \<and> count \<le> 50)"
    by (auto simp: Wishlist_add_array Wishlist_count_array
          intro: exI [where x = "Suc (length xs)"] exI [where x = "length xs"]
                 exI [where x = "length (tl xs @ [JStr handle])"])
qed (simp_all add: Wishlist_add_array)

theorem Wishlist_add_cap_witness:
  "truthy ''new'' \<and> JStr ''new'' \<notin> set fifty_handles \<and> length fifty_handles = 50
   \<and> JStr ''oldest'' \<in> set fifty_handles
   \<and> Wishlist_add True ''oldest'' (JsonText (JArr fifty_handles)) = Inr (False, JsonText (JArr fifty_handles), [])
   \<and> Wishlist_add True ''new'' (JsonText (JArr fifty_handles))
        = Inr (True, JsonText (JArr (tl fifty_handles @ [JStr ''new''])),
               [CountersUpdated 50, Dispatched ''wishlist:add'' ''new''])
   \<and> hd fifty_handles = JStr ''oldest'' \<and> JStr ''oldest'' \<notin> set (tl fifty_handles @ [JStr ''new''])"
proof -
  have a: "truthy ''new''" by (simp add: truthy_def)
  show ?thesis
    using Wishlist_add_cap [of "''new''" fifty_handles True] Wishlist_add_cap [of "''oldest''" fifty_handles True]
      a fifty_facts fifty_length by simp
qed

subsection \<open>Recently viewed\<close>

lemma RecentlyViewed_getAll_simps:
  "RecentlyViewed_getAll NoItem = Inr (JArr [])" "RecentlyViewed_getAll (JsonText v) = Inr v"
  by (simp_all add: RecentlyViewed_getAll_def parse_or_def)

lemma stored_handles_simps [simp]:
  "stored_handles NoItem = []" "stored_handles (JsonText (JArr xs)) = xs"
  by (simp_all add: stored_handles_def RecentlyViewed_getAll_simps)

lemma RecentlyViewed_add_array:
  "RecentlyViewed_add setItem_ok handle (JsonText (JArr xs)) =
     (if \<not> truthy handle then Inr (JsonText (JArr xs), [])
      else if setItem_ok then Inr (JsonText (JArr (moved_to_front handle xs)), [])
      else Inr (JsonText (JArr xs), [ConsoleError ''RecentlyViewed: Failed to save to localStorage'']))"
  by (simp add: RecentlyViewed_add_def RecentlyViewed_getAll_simps RecentlyViewed_save_def
      MAX_ITEMS_recent_def moved_to_front_def Let_def)

lemma RecentlyViewed_add_NoItem:
  "RecentlyViewed_add setItem_ok handle NoItem =
     (if \<not> truthy handle then Inr (NoItem, [])
      else if setItem_ok then Inr (JsonText (JArr [JStr handle]), [])
      else Inr (NoItem, [ConsoleError ''RecentlyViewed: Failed to save to localStorage'']))"
  by (simp add: RecentlyViewed_add_def RecentlyViewed_getAll_simps RecentlyViewed_save_def
      MAX_ITEMS_recent_def Let_def)

lemma recent_list_moved:
  assumes "recent_list xs" "truthy handle"
  shows "recent_list (moved_to_front handle xs)"
proof -
  have "distinct (JStr handle # filter (\<lambda>h. h \<noteq> JStr handle) xs)"
    using assms by (simp add: recent_list_def)
  then have "distinct (moved_to_front handle xs)"
    unfolding moved_to_front_def by (rule distinct_take)
  moreover have "JStr [] \<notin> set (moved_to_front handle xs)"
    using assms by (auto simp: recent_list_def moved_to_front_def truthy_def dest!: in_set_takeD)
  ultimately show ?thesis
    by (simp add: recent_list_def moved_to_front_def)
qed

text \<open>Every list the module has stored is a list without repetition, of at most twelve non-empty handles.\<close>

lemma recent_ok_stored: "recently_viewed_stored data \<Longrightarrow> recent_ok data"
proof (induction rule: recently_viewed_stored.induct)
  case never_written
  then show ?case by (simp add: recent_ok_def)
next
  case (after_add data setItem_ok handle data' shown)
  from after_add.IH show ?case
    unfolding recent_ok_def
  proof (elim disjE exE conjE)
    assume "data = NoItem"
    with after_add.hyps(2) show "data' = NoItem \<or> (\<exists>xs. data' = JsonText (JArr xs) \<and> recent_list xs)"
      by (auto simp: RecentlyViewed_add_NoItem recent_list_def truthy_def split: if_splits)
  next
    fix xs assume "data = JsonText (JArr xs)" "recent_list xs"
    with after_add.hyps(2) show "data' = NoItem \<or> (\<exists>xs. data' = JsonText (JArr xs) \<and> recent_list xs)"
      by (auto simp: RecentlyViewed_add_array recent_list_moved split: if_splits)
  qed
next
  case (after_clear data setItem_ok data' shown)
  then show ?case
    by (auto simp: RecentlyViewed_clear_def RecentlyViewed_save_def recent_ok_def recent_list_def split: if_splits)
qed

lemma moved_present:
  assumes "recent_list xs" "JStr handle \<in> set xs"
  shows "moved_to_front handle xs = JStr handle # filter (\<lambda>h. h \<noteq> JStr handle) xs"
    and "length (moved_to_front handle xs) = length xs"
    and "set (moved_to_front handle xs) = set xs"
    and "distinct (moved_to_front handle xs)"
proof -
  have "length (filter (\<lambda>h. h \<noteq> JStr handle) xs) = length xs - 1"
    using assms
    by (metis (mono_tags, lifting) distinct_remove1_removeAll length_remove1 recent_list_def removeAll_filter_not_eq filter_cong)
  moreover have "0 < length xs" using assms(2) by (cases xs) auto
  ultimately have len: "length (JStr handle # filter (\<lambda>h. h \<noteq> JStr handle) xs) = length xs"
    by simp
  then show m: "moved_to_front handle xs = JStr handle # filter (\<lambda>h. h \<noteq> JStr handle) xs"
    using assms(1) by (simp add: moved_to_front_def recent_list_def)
  show "length (moved_to_front handle xs) = length xs"
    using len m by simp
  show "set (moved_to_front handle xs) = set xs"
    using assms(2) by (auto simp: m)
  show "distinct (moved_to_front handle xs)"
    using assms(1) by (simp add: m recent_list_def)
qed

lemma add_present_stored:
  assumes "recent_ok data" "JStr handle \<in> set (stored_handles data)"
  shows "\<exists>data'. RecentlyViewed_add True handle data = Inr (data', [])
               \<and> stored_handles data' = JStr handle # filter (\<lambda>h. h \<noteq> JStr handle) (stored_handles data)
               \<and> distinct (stored_handles data')
               \<and> set (stored_handles data') = set (stored_handles data)
               \<and> length (stored_handles data') = length (stored_handles data)"
proof -
  from assms obtain xs where xs: "data = JsonText (JArr xs)" "recent_list xs"
    by (auto simp: recent_ok_def)
  with assms(2) have h: "JStr handle \<in> set xs" by simp
  then have "truthy handle"
    using xs(2) by (auto simp: recent_list_def truthy_def)
  then have "RecentlyViewed_add True handle data = Inr (JsonText (JArr (moved_to_front handle xs)), [])"
    by (simp add: xs(1) RecentlyViewed_add_array)
  then show ?thesis
    using moved_present [OF xs(2) h] by (simp add: xs(1))
qed

lemma add_bounded_stored:
  assumes "recent_ok data" "RecentlyViewed_add setItem_ok handle data = Inr (data', shown)"
  shows "length (stored_handles data') \<le> 12"
    and "truthy handle \<and> setItem_ok \<longrightarrow> stored_handles data' = moved_to_front handle (stored_handles data)"
proof -
  from assms(1) consider "data = NoItem" | xs where "data = JsonText (JArr xs)" "recent_list xs"
    by (auto simp: recent_ok_def)
  then have "length (stored_handles data') \<le> 12
     \<and> (truthy handle \<and> setItem_ok \<longrightarrow> stored_handles data' = moved_to_front handle (stored_handles data))"
  proof cases
    case 1
    with assms(2) show ?thesis
      by (auto simp: RecentlyViewed_add_NoItem moved_to_front_def split: if_splits)
  next
    case 2
    have "length (moved_to_front handle xs) \<le> 12" "length xs \<le> 12"
      using 2(2) by (simp_all add: moved_to_front_def recent_list_def)
    with assms(2) 2(1) show ?thesis
      by (auto simp: RecentlyViewed_add_array split: if_splits)
  qed
  then show "length (stored_handles data') \<le> 12"
    and "truthy handle \<and> setItem_ok \<longrightarrow> stored_handles data' = moved_to_front handle (stored_handles data)"
    by simp_all
qed

lemma three_viewed_stored: "recently_viewed_stored three_viewed"
proof -
  have 1: "recently_viewed_stored (JsonText (JArr [JStr ''a'']))"
    by (rule after_add [OF never_written, of True "''a''" _ "[]"])
       (simp add: RecentlyViewed_add_NoItem truthy_def)
  have 2: "recently_viewed_stored (JsonText (JArr [JStr ''b'', JStr ''a'']))"
    by (rule after_add [OF 1, of True "''b''" _ "[]"])
       (simp add: RecentlyViewed_add_array truthy_def moved_to_front_def)
  show ?thesis
    unfolding three_viewed_def
    by (rule after_add [OF 2, of True "''c''" _ "[]"])
       (simp add: RecentlyViewed_add_array truthy_def moved_to_front_def)
qed

text \<open>
  Claim C9.  On a list that the module has stored, adding a handle that is in the list
  puts it first, keeps every other handle in its order, repeats no handle and keeps the
  count; after every add the stored list has at most twelve entries, and after an add
  that was written it starts with the added handle, followed by the earlier ones.
\<close>

theorem RecentlyViewed_add_moves_to_front:
  assumes "recently_viewed_stored data"
  shows "(JStr handle \<in> set (stored_handles data) \<longrightarrow>
            (\<exists>data'. RecentlyViewed_add True handle data = Inr (data', [])
               \<and> stored_handles data' = JStr handle # filter (\<lambda>h. h \<noteq> JStr handle) (stored_handles data)
               \<and> distinct (stored_handles data')
               \<and> set (stored_handles data') = set (stored_handles data)
               \<and> length (stored_handles data') = length (stored_handles data)))
       \<and> (\<forall>data' shown. RecentlyViewed_add setItem_ok handle data = Inr (data', shown) \<longrightarrow>
            length (stored_handles data') \<le> 12
            \<and> (truthy handle \<and> setItem_ok \<longrightarrow>
                 stored_handles data' = take 12 (JStr handle # filter (\<lambda>h. h \<noteq> JStr handle) (stored_handles data))))"
proof -
  from assms have ok: "recent_ok data" by (rule recent_ok_stored)
  show ?thesis
    unfolding moved_to_front_def [symmetric]
    using add_present_stored [OF ok] add_bounded_stored [OF ok] by blast
qed

theorem RecentlyViewed_add_moves_to_front_witness:
  "recently_viewed_stored three_viewed \<and> JStr ''a'' \<in> set (stored_handles three_viewed)
   \<and> RecentlyViewed_add True ''a'' three_viewed = Inr (JsonText (JArr [JStr ''a'', JStr ''c'', JStr ''b'']), [])
   \<and> length (stored_handles (JsonText (JArr [JStr ''a'', JStr ''c'', JStr ''b'']))) \<le> 12"
proof -
  have present: "JStr ''a'' \<in> set (stored_handles three_viewed)"
    by (simp add: three_viewed_def)
  from RecentlyViewed_add_moves_to_front [OF three_viewed_stored, of "''a''" True] present
  obtain data' where d: "RecentlyViewed_add True ''a'' three_viewed = Inr (data', [])"
    and bound: "length (stored_handles data') \<le> 12"
    by blast
  have "data' = JsonText (JArr [JStr ''a'', JStr ''c'', JStr ''b''])"
    using d by (simp add: three_viewed_def RecentlyViewed_add_array truthy_def moved_to_front_def)
  with d bound present three_viewed_stored show ?thesis by simp
qed

section \<open>Cart drawer\<close>

lemma requests_simps [simp]:
  "requests [] = []" "requests (Req r # es) = r # requests es" "requests (Eff e # es) = requests es"
  "requests (xs @ ys) = requests xs @ requests ys"
  by (simp_all add: requests_def)

lemma change_requests_simps [simp]:
  "change_requests [] = []" "change_requests (CartChange key q # rs) = (key, q) # change_requests rs"
  "change_requests (CartSection # rs) = change_requests rs" "change_requests (CartJs # rs) = change_requests rs"
  "change_requests (CartAdd fd # rs) = change_requests rs" "change_requests (FormAdd fd # rs) = change_requests rs"
  "change_requests (xs @ ys) = change_requests xs @ change_requests ys"
  by (simp_all add: change_requests_def)

lemma awaited_simps [simp]:
  "awaited [] = []" "awaited (AwaitingFetch r k # ps) = r # awaited ps" "awaited (Timer ms c # ps) = awaited ps"
  "awaited (ps @ qs) = awaited ps @ awaited qs"
  by (simp_all add: awaited_def)

lemma sync_updateCount: "sync (updateCount k) w = ([Req CartJs], w, [AwaitingFetch CartJs (\<lambda>r.
       case r of
         Rejected \<Rightarrow> Do (LogError ''CartDrawer: Count update failed'') k
       | Fulfilled response \<Rightarrow>
           (case body_json response of
              None \<Rightarrow> Do (LogError ''CartDrawer: Count update failed'') k
            | Some cart \<Rightarrow> Do (ShowCount (item_count cart)) k))])"
  by (simp add: updateCount_def)

lemma exec_updateItem_requests:
  "change_requests (requests (fst (exec (updateItem key q Stop) outcome n w))) = [(key, q)]"
  by (cases "outcome n"; cases "outcome (Suc n)")
     (auto simp: updateItem_def refresh_def sync_updateCount split: option.splits prod.splits)

lemma exec_updateItem_pending:
  "\<forall>p \<in> set (snd (snd (exec (updateItem key q Stop) outcome n w))).
     \<exists>k. p = AwaitingFetch CartJs k \<and> (\<forall>r w'. requests (fst (sync (k r) w')) = [] \<and> snd (snd (sync (k r) w')) = [])"
  by (cases "outcome n"; cases "outcome (Suc n)")
     (auto simp: updateItem_def refresh_def sync_updateCount split: option.splits prod.splits fetched.splits)

lemma sync_updateItem_awaited:
  "awaited (snd (snd (sync (updateItem key q k) w))) = [CartChange key q]"
  by (simp add: updateItem_def)

lemma displayed_page0: "displayed_text (rows page0) ''line-1'' = ''2''"
  by (simp add: displayed_text_def page0_def truthy_def)

lemma plain_line_1: "plain_key ''line-1''"
  by (simp add: plain_key_def)

subsection \<open>Changing a quantity\<close>

text \<open>The quantity that is asked for, when the displayed text reads as an integer.\<close>

lemma newQty_clamped:
  assumes "parseInt t 10 = Num d" and "\<bar>d + change\<bar> < 2 ^ 53"
  shows "Math_max0 (plus_number (parseInt t 10) (Num change)) = Num (max 0 (d + change))"
  using assms by (simp add: to_number_safe)

text \<open>Whatever the displayed text is, also text without digits: one request, with the number computed.\<close>

lemma changeQuantity_any_text:
  assumes "plain_key key"
  shows
  "(let newQty = Math_max0 (plus_number (parseInt (displayed_text (rows w) key) 10) (Num change)) in
     (newQty = Num 0 \<longrightarrow>
        sync (changeQuantity key change k) w = sync (removeItem key k) w
        \<and> exec (changeQuantity key change k) outcome n w = exec (removeItem key k) outcome n w)
   \<and> change_requests (requests (fst (exec (changeQuantity key change Stop) outcome n w))) = [(key, newQty)]
   \<and> awaited (snd (snd (sync (changeQuantity key change Stop) w))) = [CartChange key newQty]
   \<and> (\<forall>p \<in> set (snd (snd (exec (changeQuantity key change Stop) outcome n w))).
        \<exists>k. p = AwaitingFetch CartJs k
          \<and> (\<forall>r w'. requests (fst (sync (k r) w')) = [] \<and> snd (snd (sync (k r) w')) = [])))"
  using exec_updateItem_pending [of key _ outcome n w] assms
  by (simp add: changeQuantity_def Let_def removeItem_def exec_updateItem_requests sync_updateItem_awaited)

text \<open>A key with a double quote: the selector is malformed and no request is made.\<close>

lemma changeQuantity_malformed_key:
  "\<not> plain_key key \<Longrightarrow> exec (changeQuantity key change k) outcome n w = ([Eff UncaughtSyntaxError], w, [])"
  by (simp add: changeQuantity_def)

text \<open>
  Claim C4.  For a plain line key whose row displays a text that reads as the integer
  \<open>d\<close>, and a change that keeps the sum a safe integer: \<^verbatim>\<open>changeQuantity\<close> reads that
  text (the text of the row, when the row shows one) and asks for the quantity
  \<open>max 0 (d + change)\<close>.  When the sum is zero or less the call is the call of
  \<^verbatim>\<open>removeItem\<close> for the line; in every case it issues exactly one update request, which
  carries that absolute quantity.  What is still pending when the call has ended is the
  count of the cart, which issues no request.
\<close>

theorem changeQuantity_absolute:
  assumes "plain_key key"
    and "parseInt (displayed_text (rows w) key) 10 = Num d"
    and "\<bar>change\<bar> < 2 ^ 53" and "\<bar>d + change\<bar> < 2 ^ 53"
  shows
  "(d + change \<le> 0 \<longrightarrow>
        sync (changeQuantity key change k) w = sync (removeItem key k) w
        \<and> exec (changeQuantity key change k) outcome n w = exec (removeItem key k) outcome n w)
   \<and> change_requests (requests (fst (exec (changeQuantity key change Stop) outcome n w)))
        = [(key, Num (max 0 (d + change)))]
   \<and> awaited (snd (snd (sync (changeQuantity key change Stop) w)))
        = [CartChange key (Num (max 0 (d + change)))]
   \<and> (\<forall>p \<in> set (snd (snd (exec (changeQuantity key change Stop) outcome n w))).
        \<exists>k. p = AwaitingFetch CartJs k
          \<and> (\<forall>r w'. requests (fst (sync (k r) w')) = [] \<and> snd (snd (sync (k r) w')) = []))
   \<and> (\<forall>t. map_of (rows w) key = Some (Some t) \<and> truthy t \<longrightarrow> displayed_text (rows w) key = t)"
proof -
  have q: "Math_max0 (plus_number (parseInt (displayed_text (rows w) key) 10) (Num change))
             = Num (max 0 (d + change))"
    using assms(2,4) by (rule newQty_clamped)
  have zero: "d + change \<le> 0 \<Longrightarrow> Num (max 0 (d + change)) = Num 0"
    by simp
  have shown: "\<forall>t. map_of (rows w) key = Some (Some t) \<and> truthy t \<longrightarrow> displayed_text (rows w) key = t"
    by (simp add: displayed_text_def)
  show ?thesis
    using changeQuantity_any_text [OF assms(1), of w change k outcome n] zero shown
    unfolding q Let_def by blast
qed

text \<open>The line shows 2: minus five asks for 0 and removes the line, plus one asks for 3.\<close>

theorem changeQuantity_absolute_witness:
  "plain_key ''line-1'' \<and> parseInt (displayed_text (rows page0) ''line-1'') 10 = Num 2
   \<and> \<bar>- 5 :: int\<bar> < 2 ^ 53 \<and> \<bar>2 + (- 5) :: int\<bar> < 2 ^ 53
   \<and> exec (changeQuantity ''line-1'' (- 5) Stop) all_rejected 0 page0
       = exec (removeItem ''line-1'' Stop) all_rejected 0 page0
   \<and> change_requests (requests (fst (exec (changeQuantity ''line-1'' (- 5) Stop) all_rejected 0 page0)))
       = [(''line-1'', Num 0)]
   \<and> change_requests (requests (fst (exec (changeQuantity ''line-1'' 1 Stop) all_rejected 0 page0)))
       = [(''line-1'', Num 3)]"
proof -
  have shows_2: "parseInt (displayed_text (rows page0) ''line-1'') 10 = Num 2"
    by (simp add: displayed_page0 parseInt_2)
  have a: "\<bar>- 5 :: int\<bar> < 2 ^ 53" "\<bar>2 + (- 5) :: int\<bar> < 2 ^ 53"
    and b: "\<bar>1 :: int\<bar> < 2 ^ 53" "\<bar>2 + 1 :: int\<bar> < 2 ^ 53"
    by simp_all
  note minus = changeQuantity_absolute [OF plain_line_1 shows_2 a, of Stop all_rejected 0]
  note plus = changeQuantity_absolute [OF plain_line_1 shows_2 b, of Stop all_rejected 0]
  have removed: "exec (changeQuantity ''line-1'' (- 5) Stop) all_rejected 0 page0
       = exec (removeItem ''line-1'' Stop) all_rejected 0 page0"
    using conjunct1 [OF minus] by simp
  have zero: "change_requests (requests (fst (exec (changeQuantity ''line-1'' (- 5) Stop) all_rejected 0 page0)))
       = [(''line-1'', Num 0)]"
    using conjunct1 [OF conjunct2 [OF minus]] by simp
  have three: "change_requests (requests (fst (exec (changeQuantity ''line-1'' 1 Stop) all_rejected 0 page0)))
       = [(''line-1'', Num 3)]"
    using conjunct1 [OF conjunct2 [OF plus]] by simp
  show ?thesis
    by (intro conjI) (fact plain_line_1 shows_2 a removed zero three)+
qed

subsection \<open>Two changes in quick succession\<close>

lemma sync_changeQuantity:
  assumes "plain_key key"
  shows "sync (changeQuantity key change Stop) w =
     ([Eff (Loading True),
       Req (CartChange key (Math_max0 (plus_number (parseInt (displayed_text (rows w) key) 10) (Num change))))],
      w,
      snd (snd (sync (changeQuantity key change Stop) w)))
   \<and> awaited (snd (snd (sync (changeQuantity key change Stop) w)))
       = [CartChange key (Math_max0 (plus_number (parseInt (displayed_text (rows w) key) 10) (Num change)))]"
  using assms by (simp add: changeQuantity_def Let_def removeItem_def updateItem_def)

text \<open>
  Claim C5, as stated, on the page that shows 2: after two quick presses of plus two
  update requests for the line are awaited at the same time, each asking for 3; when
  all requests have settled, no request has asked for 4 and the line shows 3.
\<close>

theorem changeQuantity_lost_update:
  "awaited (waiting (run idle (take 2 two_quick_plus)))
       = [CartChange ''line-1'' (Num 3), CartChange ''line-1'' (Num 3)]
   \<and> waiting (run idle two_quick_plus) = []
   \<and> change_requests (requests (trace (run idle two_quick_plus))) = [(''line-1'', Num 3), (''line-1'', Num 3)]
   \<and> rows (the_page (run idle two_quick_plus)) = [(''line-1'', Some ''3'')]"
  by (simp add: run_def idle_def two_quick_plus_def changeQuantity_def plain_line_1 page0_def
      displayed_text_def truthy_def parseInt_2 to_number_safe removeItem_def updateItem_def refresh_def
      updateCount_def resume_def at_def changed_ok_def section_3_def Let_def)

text \<open>
  Claim C5, amended.  Two calls of \<^verbatim>\<open>changeQuantity\<close> for the same plain line key, with
  nothing settling between them, are not put in order: the second is issued while the
  request of the first is awaited.  Each reads the same displayed quantity \<open>d\<close> and
  issues its own update request at once, so that both requests are awaited together,
  the first carrying \<open>max 0 (d + d1)\<close> and the second \<open>max 0 (d + d2)\<close>; the page is
  left as it was.
\<close>

theorem changeQuantity_not_serialised:
  assumes "plain_key key"
    and "parseInt (displayed_text (rows (the_page c)) key) 10 = Num d"
    and "\<bar>d1\<bar> < 2 ^ 53" and "\<bar>d + d1\<bar> < 2 ^ 53"
    and "\<bar>d2\<bar> < 2 ^ 53" and "\<bar>d + d2\<bar> < 2 ^ 53"
  shows
  "(let c' = run c [Call (changeQuantity key d1 Stop), Call (changeQuantity key d2 Stop)]
    in awaited (waiting c')
         = awaited (waiting c)
           @ [CartChange key (Num (max 0 (d + d1))), CartChange key (Num (max 0 (d + d2)))]
       \<and> requests (trace c')
         = requests (trace c)
           @ [CartChange key (Num (max 0 (d + d1))), CartChange key (Num (max 0 (d + d2)))]
       \<and> the_page c' = the_page c)"
proof -
  have q1: "Math_max0 (plus_number (parseInt (displayed_text (rows (the_page c)) key) 10) (Num d1))
              = Num (max 0 (d + d1))"
    using assms(2,4) by (rule newQty_clamped)
  have q2: "Math_max0 (plus_number (parseInt (displayed_text (rows (the_page c)) key) 10) (Num d2))
              = Num (max 0 (d + d2))"
    using assms(2,6) by (rule newQty_clamped)
  obtain ps1 where s1: "sync (changeQuantity key d1 Stop) (the_page c)
        = ([Eff (Loading True), Req (CartChange key (Num (max 0 (d + d1))))], the_page c, ps1)"
    and a1: "awaited ps1 = [CartChange key (Num (max 0 (d + d1)))]"
    using sync_changeQuantity [OF assms(1), of d1 "the_page c"] unfolding q1 by blast
  obtain ps2 where s2: "sync (changeQuantity key d2 Stop) (the_page c)
        = ([Eff (Loading True), Req (CartChange key (Num (max 0 (d + d2))))], the_page c, ps2)"
    and a2: "awaited ps2 = [CartChange key (Num (max 0 (d + d2)))]"
    using sync_changeQuantity [OF assms(1), of d2 "the_page c"] unfolding q2 by blast
  show ?thesis
    by (simp add: run_def s1 s2 a1 a2 Let_def)
qed

text \<open>The line shows 2: plus one and plus two, one after the other at once, ask for 3 and for 4.\<close>

theorem changeQuantity_not_serialised_witness:
  "plain_key ''line-1'' \<and> parseInt (displayed_text (rows (the_page idle)) ''line-1'') 10 = Num 2
   \<and> awaited (waiting (run idle [Call (changeQuantity ''line-1'' 1 Stop), Call (changeQuantity ''line-1'' 2 Stop)]))
     = [CartChange ''line-1'' (Num 3), CartChange ''line-1'' (Num 4)]"
proof -
  have shows_2: "parseInt (displayed_text (rows (the_page idle)) ''line-1'') 10 = Num 2"
    by (simp add: idle_def displayed_page0 parseInt_2)
  have a: "\<bar>1 :: int\<bar> < 2 ^ 53" "\<bar>2 + 1 :: int\<bar> < 2 ^ 53" "\<bar>2 :: int\<bar> < 2 ^ 53" "\<bar>2 + 2 :: int\<bar> < 2 ^ 53"
    by simp_all
  have "awaited (waiting idle) = []"
    by (simp add: idle_def)
  then show ?thesis
    using changeQuantity_not_serialised [OF plain_line_1 shows_2 a] plain_line_1 shows_2
    by (simp add: Let_def)
qed

subsection \<open>Removing a line\<close>

text \<open>
  Claim C6, as stated, with the update request rejected: the error is logged, the loading
  state is cleared, and no request for the rendered cart is made.
\<close>

theorem removeItem_rejected_no_refresh:
  "fst (exec (removeItem ''line-1'' Stop) all_rejected 0 page0)
     = [Eff (Loading True), Req (CartChange ''line-1'' (Num 0)),
        Eff (LogError ''CartDrawer: Update failed''), Eff (Loading False)]
   \<and> CartSection \<notin> set (requests (fst (exec (removeItem ''line-1'' Stop) all_rejected 0 page0)))"
  by (simp add: removeItem_def updateItem_def all_rejected_def)

text \<open>
  Claim C6, amended.  \<^verbatim>\<open>removeItem\<close> issues exactly one update request, to quantity zero;
  the rendered cart is refreshed afterwards exactly when that request succeeded.  When it
  is rejected or answered without success, the failure is logged and the loading state
  cleared, and nothing else happens.
\<close>

theorem removeItem_refresh_iff_success:
  "change_requests (requests (fst (exec (removeItem key Stop) outcome n w))) = [(key, Num 0)]
   \<and> (CartSection \<in> set (requests (fst (exec (removeItem key Stop) outcome n w))) \<longleftrightarrow> succeeded (outcome n))
   \<and> (\<not> succeeded (outcome n) \<longrightarrow>
        exec (removeItem key Stop) outcome n w
          = ([Eff (Loading True), Req (CartChange key (Num 0)),
              Eff (LogError ''CartDrawer: Update failed''), Eff (Loading False)], w, []))"
  by (cases "outcome n"; cases "outcome (Suc n)")
     (auto simp: removeItem_def updateItem_def refresh_def sync_updateCount succeeded_def
           split: option.splits prod.splits)

theorem removeItem_refresh_iff_success_witness:
  "succeeded (all_ok 0) \<and> \<not> succeeded (all_rejected 0)
   \<and> requests (fst (exec (removeItem ''line-1'' Stop) all_ok 0 page0))
       = [CartChange ''line-1'' (Num 0), CartSection, CartJs]
   \<and> requests (fst (exec (removeItem ''line-1'' Stop) all_rejected 0 page0)) = [CartChange ''line-1'' (Num 0)]"
proof -
  have ok: "succeeded (all_ok 0)" and failed: "\<not> succeeded (all_rejected 0)"
    by (simp_all add: succeeded_def all_ok_def changed_ok_def all_rejected_def)
  have "requests (fst (exec (removeItem ''line-1'' Stop) all_rejected 0 page0)) = [CartChange ''line-1'' (Num 0)]"
    using removeItem_refresh_iff_success [of "''line-1''" all_rejected 0 page0] failed by simp
  moreover have "requests (fst (exec (removeItem ''line-1'' Stop) all_ok 0 page0))
       = [CartChange ''line-1'' (Num 0), CartSection, CartJs]"
    by (simp add: removeItem_def updateItem_def refresh_def sync_updateCount all_ok_def changed_ok_def
        section_3_def page0_def)
  ultimately show ?thesis using ok failed by simp
qed

subsection \<open>Adding to the cart\<close>

lemma addItem_final:
  assumes "submitBtn form = Some originalText"
  shows "case exec (addItem form Stop) outcome n w of (es, w', ps) \<Rightarrow>
           hd es = Eff (SubmitDisabled True) \<and> submit_disabled w' = False \<and> submit_text w' = originalText"
  using assms
  by (cases "outcome n"; cases "outcome (Suc n)")
     (auto simp: addItem_def refresh_def open_drawer_def sync_updateCount Let_def
           split: option.splits prod.splits if_splits)

lemma onFormSubmit_final:
  assumes "ajaxCart w" "addToCartButton w = Some b"
  shows "case exec (onFormSubmit fd Stop) outcome n w of (es, w', ps) \<Rightarrow>
           Eff (AddToCartState False ''Adding...'') \<in> set es \<and> addToCartButton w' = Some False
           \<and> (\<forall>ms callback. Timer ms callback \<in> set ps \<longrightarrow>
                 (addToCartButton (fst (snd (sync callback w'))) = Some True
                    \<longrightarrow> (\<exists>v. currentVariant w' = Some v \<and> \<not> available v)))"
  using assms
  by (cases "outcome n")
     (auto simp: onFormSubmit_def updateAvailability_def Let_def
           split: option.splits prod.splits if_splits)

text \<open>
  Claim C7.  Whatever the outcome of its requests (rejected, answered without success,
  answered with a body that cannot be read, or answered with success), a call of
  \<^verbatim>\<open>addItem\<close> for a form with a submit button first disables the button and ends with the
  button enabled and its text restored.  A submit of the product form with the AJAX cart
  on disables its button and ends with the button enabled; a callback that the handler
  scheduled leaves the button disabled only to show a current variant that is sold out.
\<close>

theorem add_to_cart_releases_control:
  "(submitBtn form = Some originalText \<longrightarrow>
      (case exec (addItem form Stop) outcome n w of (es, w', ps) \<Rightarrow>
         hd es = Eff (SubmitDisabled True) \<and> submit_disabled w' = False \<and> submit_text w' = originalText))
   \<and> (ajaxCart w \<and> addToCartButton w = Some b \<longrightarrow>
      (case exec (onFormSubmit fd Stop) outcome n w of (es, w', ps) \<Rightarrow>
         Eff (AddToCartState False ''Adding...'') \<in> set es \<and> addToCartButton w' = Some False
         \<and> (\<forall>ms callback. Timer ms callback \<in> set ps \<longrightarrow>
               (addToCartButton (fst (snd (sync callback w'))) = Some True
                  \<longrightarrow> (\<exists>v. currentVariant w' = Some v \<and> \<not> available v)))))"
proof (intro conjI impI)
  assume "submitBtn form = Some originalText"
  then show "case exec (addItem form Stop) outcome n w of (es, w', ps) \<Rightarrow>
         hd es = Eff (SubmitDisabled True) \<and> submit_disabled w' = False \<and> submit_text w' = originalText"
    by (rule addItem_final)
next
  assume "ajaxCart w \<and> addToCartButton w = Some b"
  then have "ajaxCart w" and "addToCartButton w = Some b"
    by simp_all
  then show "case exec (onFormSubmit fd Stop) outcome n w of (es, w', ps) \<Rightarrow>
         Eff (AddToCartState False ''Adding...'') \<in> set es \<and> addToCartButton w' = Some False
         \<and> (\<forall>ms callback. Timer ms callback \<in> set ps \<longrightarrow>
               (addToCartButton (fst (snd (sync callback w'))) = Some True
                  \<longrightarrow> (\<exists>v. currentVariant w' = Some v \<and> \<not> available v)))"
    by (rule onFormSubmit_final)
qed

text \<open>Every request rejected: both buttons end enabled, the submit button with its own text.\<close>

theorem add_to_cart_releases_control_witness:
  "submitBtn add_form = Some ''Add to Cart'' \<and> ajaxCart page0 \<and> addToCartButton page0 = Some False
   \<and> submit_disabled (fst (snd (exec (addItem add_form Stop) all_rejected 0 page0))) = False
   \<and> submit_text (fst (snd (exec (addItem add_form Stop) all_rejected 0 page0))) = ''Add to Cart''
   \<and> addToCartButton (fst (snd (exec (onFormSubmit [] Stop) all_rejected 0 page0))) = Some False"
proof -
  have h: "submitBtn add_form = Some ''Add to Cart''" "ajaxCart page0" "addToCartButton page0 = Some False"
    by (simp_all add: add_form_def page0_def)
  show ?thesis
    using add_to_cart_releases_control [of add_form "''Add to Cart''" all_rejected 0 page0 False "[]"] h
    by (auto split: prod.splits)
qed

end
